theory Spec2Isabelle
  imports Main
begin

section \<open>JSON documents and Python's operations on them\<close>

text \<open>
  The connectors handle parsed JSON throughout: a backend response after \<open>response.json()\<close>
  or \<open>json.loads\<close>, the tree \<open>all_results\<close>, the checkpoint document. A Python dict keeps
  its insertion order and has no repeated key, so it is an association list. JSON numbers
  are integers in every document the connectors write; floats are not modelled. A string
  is a list of characters with code points below 256.
\<close>

datatype json =
    JNull
  | JBool bool
  | JInt int
  | JStr string
  | JList "json list"
  | JDict "(string \<times> json) list"

datatype error =
    TransportError
  | HTTPError
  | UnicodeDecodeError
  | JSONDecodeError
  | ParseError
  | KeyError
  | IndexError
  | TypeError
  | ValueError
  | AttributeError

text \<open>Python's truth value of a parsed JSON value (\<open>if data\<close>, \<open>not data\<close>, \<open>any(...)\<close>).\<close>

fun truthy :: "json \<Rightarrow> bool" where
  "truthy JNull = False"
| "truthy (JBool b) = b"
| "truthy (JInt n) = (n \<noteq> 0)"
| "truthy (JStr s) = (s \<noteq> [])"
| "truthy (JList xs) = (xs \<noteq> [])"
| "truthy (JDict kvs) = (kvs \<noteq> [])"

text \<open>\<open>d[k] = v\<close> on a dict: an existing key keeps its place, a new key goes last.\<close>

fun dict_set :: "(string \<times> json) list \<Rightarrow> string \<Rightarrow> json \<Rightarrow> (string \<times> json) list" where
  "dict_set [] k v = [(k, v)]"
| "dict_set ((k', v') # kvs) k v =
     (if k' = k then (k, v) # kvs else (k', v') # dict_set kvs k v)"

text \<open>\<open>x.get(k, d)\<close>: only a dict has the method.\<close>

fun py_get :: "json \<Rightarrow> string \<Rightarrow> json \<Rightarrow> error + json" where
  "py_get (JDict kvs) k d = Inr (case map_of kvs k of Some v \<Rightarrow> v | None \<Rightarrow> d)"
| "py_get _ k d = Inl AttributeError"

text \<open>\<open>x[k]\<close> with a string key.\<close>

fun py_getitem :: "json \<Rightarrow> string \<Rightarrow> error + json" where
  "py_getitem (JDict kvs) k = (case map_of kvs k of Some v \<Rightarrow> Inr v | None \<Rightarrow> Inl KeyError)"
| "py_getitem _ k = Inl TypeError"

text \<open>\<open>x[0]\<close>.\<close>

fun py_getitem0 :: "json \<Rightarrow> error + json" where
  "py_getitem0 (JList []) = Inl IndexError"
| "py_getitem0 (JList (x # xs)) = Inr x"
| "py_getitem0 (JStr []) = Inl IndexError"
| "py_getitem0 (JStr (c # cs)) = Inr (JStr [c])"
| "py_getitem0 (JDict kvs) = Inl KeyError"
| "py_getitem0 _ = Inl TypeError"

text \<open>\<open>x[k] = v\<close> with a string key.\<close>

fun py_setitem :: "json \<Rightarrow> string \<Rightarrow> json \<Rightarrow> error + json" where
  "py_setitem (JDict kvs) k v = Inr (JDict (dict_set kvs k v))"
| "py_setitem _ k v = Inl TypeError"

text \<open>Whether \<open>sub\<close> occurs in \<open>s\<close> as a run of consecutive characters.\<close>

fun is_substring :: "string \<Rightarrow> string \<Rightarrow> bool" where
  "is_substring sub [] = (sub = [])"
| "is_substring sub (c # cs) = (take (length sub) (c # cs) = sub \<or> is_substring sub cs)"

text \<open>\<open>k in x\<close> for a string \<open>k\<close>.\<close>

fun py_contains :: "string \<Rightarrow> json \<Rightarrow> error + bool" where
  "py_contains k (JDict kvs) = Inr (k \<in> set (map fst kvs))"
| "py_contains k (JList xs) = Inr (JStr k \<in> set xs)"
| "py_contains k (JStr s) = Inr (is_substring k s)"
| "py_contains k _ = Inl TypeError"

text \<open>\<open>for e in x\<close>: the elements of a list, the keys of a dict, the characters of a string.\<close>

fun py_iter :: "json \<Rightarrow> error + json list" where
  "py_iter (JList xs) = Inr xs"
| "py_iter (JDict kvs) = Inr (map (\<lambda>kv. JStr (fst kv)) kvs)"
| "py_iter (JStr s) = Inr (map (\<lambda>c. JStr [c]) s)"
| "py_iter _ = Inl TypeError"

text \<open>\<open>sep.join(xs)\<close>: every element must be a string.\<close>

fun join_strings :: "string \<Rightarrow> string list \<Rightarrow> string" where
  "join_strings sep [] = []"
| "join_strings sep [x] = x"
| "join_strings sep (x # y # ys) = x @ sep @ join_strings sep (y # ys)"

fun the_strings :: "json list \<Rightarrow> error + string list" where
  "the_strings [] = Inr []"
| "the_strings (JStr s # xs) =
     (case the_strings xs of Inl e \<Rightarrow> Inl e | Inr ss \<Rightarrow> Inr (s # ss))"
| "the_strings (_ # xs) = Inl TypeError"

definition py_join :: "string \<Rightarrow> json list \<Rightarrow> error + string" where
  "py_join sep xs = (case the_strings xs of Inl e \<Rightarrow> Inl e | Inr ss \<Rightarrow> Inr (join_strings sep ss))"

text \<open>Sequencing of computations that may raise.\<close>

fun bindE :: "error + 'a \<Rightarrow> ('a \<Rightarrow> error + 'b) \<Rightarrow> error + 'b" where
  "bindE (Inl e) f = Inl e"
| "bindE (Inr a) f = f a"

fun mapE :: "('a \<Rightarrow> error + 'b) \<Rightarrow> 'a list \<Rightarrow> error + 'b list" where
  "mapE f [] = Inr []"
| "mapE f (x # xs) = bindE (f x) (\<lambda>y. bindE (mapE f xs) (\<lambda>ys. Inr (y # ys)))"

section \<open>Strings\<close>

definition digit_char :: "nat \<Rightarrow> char" where
  "digit_char n = ''0123456789'' ! n"

fun digits :: "nat \<Rightarrow> string" where
  "digits n = (if n < 10 then [digit_char n] else digits (n div 10) @ [digit_char (n mod 10)])"

declare digits.simps [simp del]

text \<open>\<open>str(i)\<close>, as an f-string renders an integer.\<close>

definition py_str :: "int \<Rightarrow> string" where
  "py_str i = (if i < 0 then CHR ''-'' # digits (nat (- i)) else digits (nat i))"

text \<open>The whitespace \<open>str.strip()\<close> removes, among the code points below 256.\<close>

definition is_space :: "char \<Rightarrow> bool" where
  "is_space c = (of_char c \<in> {9, 10, 11, 12, 13, 28, 29, 30, 31, 32, 133, 160 :: nat})"

definition strip :: "string \<Rightarrow> string" where
  "strip s = rev (dropWhile is_space (rev (dropWhile is_space s)))"

text \<open>
  \<open>s.split(sep)\<close> for a non-empty separator: the pieces between the occurrences of
  \<open>sep\<close>, found from the left without overlap; \<open>acc\<close> is the piece being read.
\<close>

function split_from :: "string \<Rightarrow> string \<Rightarrow> string \<Rightarrow> string list" where
  "split_from sep acc [] = [acc]"
| "split_from sep acc (c # cs) =
     (if sep \<noteq> [] \<and> take (length sep) (c # cs) = sep
      then acc # split_from sep [] (drop (length sep) (c # cs))
      else split_from sep (acc @ [c]) cs)"
  by pat_completeness auto
termination
  by (relation "measure (\<lambda>(sep, acc, s). length s)") auto

definition split :: "string \<Rightarrow> string \<Rightarrow> string list" where
  "split s sep = split_from sep [] s"

text \<open>\<open>s.replace(old, new)\<close> for a one-character \<open>old\<close>.\<close>

definition replace_char :: "char \<Rightarrow> string \<Rightarrow> string \<Rightarrow> string" where
  "replace_char old new s = concat (map (\<lambda>c. if c = old then new else [c]) s)"

text \<open>
  \<open>urllib.parse.quote_plus\<close>: a space becomes \<open>+\<close>, letters, digits and \<open>_.-~\<close> stay,
  every other character becomes the \<open>%XX\<close> of each byte of its UTF-8 encoding.
\<close>

definition hex_char :: "nat \<Rightarrow> char" where
  "hex_char n = ''0123456789ABCDEF'' ! n"

definition percent :: "nat \<Rightarrow> string" where
  "percent b = [CHR ''%'', hex_char (b div 16), hex_char (b mod 16)]"

definition is_unreserved :: "char \<Rightarrow> bool" where
  "is_unreserved c =
     (c \<in> set ''ABCDEFGHIJKLMNOPQRSTUVWXYZabcdefghijklmnopqrstuvwxyz0123456789_.-~'')"

definition quote_char :: "char \<Rightarrow> string" where
  "quote_char c =
     (let n = (of_char c :: nat) in
      if c = CHR '' '' then ''+''
      else if is_unreserved c then [c]
      else if n < 128 then percent n
      else percent (192 + n div 64) @ percent (128 + n mod 64))"

definition quote_plus :: "string \<Rightarrow> string" where
  "quote_plus s = concat (map quote_char s)"

section \<open>The connector's state and its effects\<close>

text \<open>
  An XML element as \<open>xml.etree.ElementTree\<close> gives it: tag, attributes, text (\<open>None\<close> for
  an element without text) and children.
\<close>

datatype xml = Element (tag: string) (attrib: "(string \<times> string) list")
  (etext: "string option") (children: "xml list")

text \<open>
  What a backend answers: nothing (the transport fails: no connection, a timeout), or a
  status code and a body. A body is the JSON value it parses to, the XML element it parses
  to, text that is neither, or bytes that are not UTF-8 text at all.
\<close>

datatype payload = Json json | Xml xml | Garbage | Undecodable

datatype http = NoResponse | Response nat payload

text \<open>
  The effects of a run, in the order they happen: a sleep (seconds), an HTTP GET, a cell of
  records stored in \<open>all_results\<close> (primary term, bias name in the nested case, keyword,
  records), the checkpoint file written, the checkpoint file removed, the final result
  document written. The log and progress callbacks and the prints are not modelled: their
  texts hold wall-clock times and nothing reads them back.
\<close>

datatype event =
    Sleep nat
  | HttpGet string
  | Stored string "string option" string "json list"
  | WriteCheckpoint json
  | RemoveCheckpoint
  | WriteResults json

text \<open>The backend: its answer to a URL may depend on everything that happened before.\<close>

type_synonym network = "event list \<Rightarrow> string \<Rightarrow> http"

text \<open>
  The fields of a connector instance (\<open>item_index\<close> is \<open>query_index\<close> in the IEEE class;
  \<open>insttoken\<close> is used by Scopus only; the IEEE class has no \<open>max_requests_per_day\<close> and
  never reads it), the two files it writes and the effects so far.
\<close>

record state =
  api_key :: string
  insttoken :: string
  max_requests_per_day :: int
  request_counter :: int
  request_log :: string
  all_results :: json
  total_saved_records :: int
  item_index :: nat
  keyword_index :: nat
  name_index :: nat
  checkpoint_file :: "json option"
  results_file :: "json option"
  events :: "event list"

text \<open>
  A method returns a value, or raises, or (a pagination loop that the backend keeps
  feeding) does not return within the fuel it was given. The state is kept in the first
  two cases: what was written before an exception stays written.
\<close>

datatype 'a outcome = Done 'a state | Raised error state | OutOfFuel

fun and_then :: "'a outcome \<Rightarrow> ('a \<Rightarrow> state \<Rightarrow> 'b outcome) \<Rightarrow> 'b outcome" where
  "and_then (Done a s) f = f a s"
| "and_then (Raised e s) f = Raised e s"
| "and_then OutOfFuel f = OutOfFuel"

fun lift :: "error + 'a \<Rightarrow> state \<Rightarrow> 'a outcome" where
  "lift (Inl e) s = Raised e s"
| "lift (Inr a) s = Done a s"

definition sleep :: "nat \<Rightarrow> state \<Rightarrow> state" where
  "sleep n s = s\<lparr>events := events s @ [Sleep n]\<rparr>"

definition http_get :: "network \<Rightarrow> string \<Rightarrow> state \<Rightarrow> http \<times> state" where
  "http_get net url s = (net (events s) url, s\<lparr>events := events s @ [HttpGet url]\<rparr>)"

section \<open>Checkpoint store\<close>

text \<open>
  \<open>json.dump\<close> followed by \<open>json.load\<close> gives back the document it was given (string keys,
  no floats), so the file holds the document. \<open>save_checkpoint\<close> is the same method in the
  four classes.
\<close>

definition save_checkpoint :: "json \<Rightarrow> state \<Rightarrow> unit outcome" where
  "save_checkpoint data s =
     (case bindE (py_setitem data ''request_counter'' (JInt (request_counter s)))
            (\<lambda>d. py_setitem d ''request_log'' (JStr (request_log s))) of
        Inl e \<Rightarrow> Raised e s
      | Inr d \<Rightarrow> Done () (s\<lparr>checkpoint_file := Some d, events := events s @ [WriteCheckpoint d]\<rparr>))"

text \<open>\<open>load_checkpoint\<close> of \<open>IEEEAPI\<close> and \<open>PubMedAPI\<close>.\<close>

definition load_checkpoint :: "state \<Rightarrow> json option" where
  "load_checkpoint s = checkpoint_file s"

text \<open>
  An integer field of the instance read from a document. The field is typed here; Python
  stores any value and raises the same \<open>TypeError\<close> at the first comparison or addition.
\<close>

fun as_int :: "json \<Rightarrow> error + int" where
  "as_int (JInt n) = Inr n"
| "as_int (JBool b) = Inr (if b then 1 else 0)"
| "as_int _ = Inl TypeError"

fun as_str :: "json \<Rightarrow> error + string" where
  "as_str (JStr s) = Inr s"
| "as_str _ = Inl TypeError"

text \<open>
  \<open>load_checkpoint\<close> of \<open>SpringerAPI\<close> and \<open>ScopusAPI\<close>: it also sets the instance's
  request counter and log from the document.
\<close>

definition load_checkpoint_restoring :: "state \<Rightarrow> json option outcome" where
  "load_checkpoint_restoring s =
     (case checkpoint_file s of
        None \<Rightarrow> Done None s
      | Some data \<Rightarrow>
          (case bindE (py_get data ''request_counter'' (JInt 0)) as_int of
             Inl e \<Rightarrow> Raised e s
           | Inr c \<Rightarrow>
               (case bindE (py_get data ''request_log'' (JStr [])) as_str of
                  Inl e \<Rightarrow> Raised e (s\<lparr>request_counter := c\<rparr>)
                | Inr l \<Rightarrow> Done (Some data) (s\<lparr>request_counter := c, request_log := l\<rparr>))))"

section \<open>Connector calls\<close>

definition log_line :: "string \<Rightarrow> int \<Rightarrow> string \<Rightarrow> string" where
  "log_line backend n url = backend @ '' API request #'' @ py_str n @ '': '' @ url @ [CHR 0x0A]"

text \<open>
  The daily-budget guard that opens \<open>get_data_from_url\<close> in the Springer, Scopus and
  PubMed classes.
\<close>

definition budget_pause :: "state \<Rightarrow> state" where
  "budget_pause s =
     (if request_counter s \<ge> max_requests_per_day s
      then (sleep (24 * 60 * 60) s)\<lparr>request_counter := 0\<rparr>
      else s)"

definition ieee_url :: "state \<Rightarrow> string \<Rightarrow> nat \<Rightarrow> string" where
  "ieee_url s query_text start_record =
     ''https://ieeexploreapi.ieee.org/api/v1/search/articles'' @ ''?apikey='' @ api_key s
     @ ''&format=json&max_records=25'' @ ''&start_record='' @ py_str (int start_record)
     @ ''&querytext='' @ quote_plus query_text"

text \<open>
  \<open>IEEEAPI.call_api\<close>. \<open>urlopen\<close> raises for a status outside 200..299; the body is read
  and decoded as UTF-8 (which raises for bytes that are not), then the counter is
  incremented, then the text is parsed.
\<close>

definition ieee_call_api :: "network \<Rightarrow> string \<Rightarrow> nat \<Rightarrow> state \<Rightarrow> json outcome" where
  "ieee_call_api net query_text start_record s0 =
     (let s1 = sleep 1 s0;
          url = ieee_url s1 query_text start_record;
          s2 = s1\<lparr>request_log := request_log s1 @ log_line ''IEEE'' (request_counter s1 + 1) url\<rparr>;
          (resp, s3) = http_get net url s2
      in case resp of
           NoResponse \<Rightarrow> Raised TransportError s3
         | Response status body \<Rightarrow>
             if 200 \<le> status \<and> status < 300 then
               (case body of
                  Undecodable \<Rightarrow> Raised UnicodeDecodeError s3
                | Json j \<Rightarrow> Done j (s3\<lparr>request_counter := request_counter s3 + 1\<rparr>)
                | _ \<Rightarrow> Raised JSONDecodeError (s3\<lparr>request_counter := request_counter s3 + 1\<rparr>))
             else Raised HTTPError s3)"

text \<open>
  \<open>SpringerAPI.get_data_from_url\<close>: \<open>response.json()\<close> is read before the counter moves;
  it raises for every body that does not parse.
\<close>

definition springer_get_data_from_url :: "network \<Rightarrow> string \<Rightarrow> state \<Rightarrow> json outcome" where
  "springer_get_data_from_url net url s0 =
     (let s1 = budget_pause s0;
          s2 = s1\<lparr>request_log := request_log s1 @ log_line ''Springer'' (request_counter s1 + 1) url\<rparr>;
          (resp, s3) = http_get net url s2
      in case resp of
           NoResponse \<Rightarrow> Raised TransportError s3
         | Response status body \<Rightarrow>
             (case body of
                Json j \<Rightarrow> Done j (s3\<lparr>request_counter := request_counter s3 + 1\<rparr>)
              | _ \<Rightarrow> Raised JSONDecodeError s3))"

text \<open>\<open>ScopusAPI.get_data_from_url\<close>: a status other than 200 returns \<open>None\<close> at once.\<close>

definition scopus_get_data_from_url :: "network \<Rightarrow> string \<Rightarrow> state \<Rightarrow> json outcome" where
  "scopus_get_data_from_url net url s0 =
     (let s1 = budget_pause s0;
          s2 = s1\<lparr>request_log := request_log s1 @ log_line ''Scopus'' (request_counter s1 + 1) url\<rparr>;
          (resp, s3) = http_get net url s2
      in case resp of
           NoResponse \<Rightarrow> Raised TransportError s3
         | Response status body \<Rightarrow>
             if status \<noteq> 200 then Done JNull s3
             else (case body of
                     Json j \<Rightarrow> Done j (s3\<lparr>request_counter := request_counter s3 + 1\<rparr>)
                   | _ \<Rightarrow> Raised JSONDecodeError s3))"

text \<open>\<open>PubMedAPI.get_data_from_url\<close>: the raw body is returned, whatever it is.\<close>

definition pubmed_get_data_from_url :: "network \<Rightarrow> string \<Rightarrow> state \<Rightarrow> payload outcome" where
  "pubmed_get_data_from_url net url s0 =
     (let s1 = budget_pause s0;
          s2 = s1\<lparr>request_log := request_log s1 @ log_line ''PubMed'' (request_counter s1 + 1) url\<rparr>;
          (resp, s3) = http_get net url s2
      in case resp of
           NoResponse \<Rightarrow> Raised TransportError s3
         | Response status body \<Rightarrow> Done body (s3\<lparr>request_counter := request_counter s3 + 1\<rparr>))"

section \<open>Creating an instance\<close>

text \<open>
  An index read from a checkpoint document. Every document the connectors write holds
  natural numbers there; a negative one (from which Python would count from the end of a
  list) is outside this model and stops it.
\<close>

fun as_nat :: "json \<Rightarrow> error + nat" where
  "as_nat (JInt n) = (if n < 0 then Inl ValueError else Inr (nat n))"
| "as_nat (JBool b) = Inr (if b then 1 else 0)"
| "as_nat _ = Inl TypeError"

text \<open>The attributes \<open>__init__\<close> sets before it looks for a checkpoint.\<close>

definition new_instance :: "string \<Rightarrow> string \<Rightarrow> json option \<Rightarrow> state" where
  "new_instance key tok file =
     \<lparr>api_key = key, insttoken = tok, max_requests_per_day = 500, request_counter = 0,
      request_log = [], all_results = JDict [], total_saved_records = 0, item_index = 0,
      keyword_index = 0, name_index = 0, checkpoint_file = file, results_file = None,
      events = []\<rparr>"

text \<open>The \<open>if checkpoint_data:\<close> branch of \<open>__init__\<close>.\<close>

definition restore :: "string \<Rightarrow> json \<Rightarrow> state \<Rightarrow> unit outcome" where
  "restore index_key d s =
     (case bindE (py_getitem d ''all_results'') (\<lambda>ar.
           bindE (bindE (py_getitem d ''total_saved_records'') as_int) (\<lambda>total.
           bindE (bindE (py_getitem d index_key) as_nat) (\<lambda>i.
           bindE (bindE (py_getitem d ''keyword_index'') as_nat) (\<lambda>j.
           bindE (bindE (py_getitem d ''name_index'') as_nat) (\<lambda>k.
           bindE (bindE (py_get d ''request_counter'' (JInt 0)) as_int) (\<lambda>c.
           bindE (bindE (py_get d ''request_log'' (JStr [])) as_str) (\<lambda>l.
             Inr (s\<lparr>all_results := ar, total_saved_records := total, item_index := i,
                    keyword_index := j, name_index := k, request_counter := c,
                    request_log := l\<rparr>)))))))) of
        Inl e \<Rightarrow> Raised e s
      | Inr s' \<Rightarrow> Done () s')"

text \<open>\<open>IEEEAPI.__init__\<close> (its index key is \<open>query_index\<close>) and \<open>PubMedAPI.__init__\<close>.\<close>

definition init_plain :: "string \<Rightarrow> string \<Rightarrow> json option \<Rightarrow> unit outcome" where
  "init_plain index_key key file =
     (let s = new_instance key [] file in
      case load_checkpoint s of
        None \<Rightarrow> Done () s
      | Some d \<Rightarrow> if truthy d then restore index_key d s else Done () s)"

definition ieee_init :: "string \<Rightarrow> json option \<Rightarrow> unit outcome" where
  "ieee_init key file = init_plain ''query_index'' key file"

definition pubmed_init :: "string \<Rightarrow> json option \<Rightarrow> unit outcome" where
  "pubmed_init key file = init_plain ''item_index'' key file"

text \<open>\<open>SpringerAPI.__init__\<close> and \<open>ScopusAPI.__init__\<close>.\<close>

definition init_restoring :: "string \<Rightarrow> string \<Rightarrow> json option \<Rightarrow> unit outcome" where
  "init_restoring key tok file =
     and_then (load_checkpoint_restoring (new_instance key tok file)) (\<lambda>data s.
       case data of
         None \<Rightarrow> Done () (s\<lparr>request_log := [], request_counter := 0\<rparr>)
       | Some d \<Rightarrow>
           if truthy d then restore ''item_index'' d s
           else Done () (s\<lparr>request_log := [], request_counter := 0\<rparr>))"

definition springer_init :: "string \<Rightarrow> json option \<Rightarrow> unit outcome" where
  "springer_init key file = init_restoring key [] file"

definition scopus_init :: "string \<Rightarrow> string \<Rightarrow> json option \<Rightarrow> unit outcome" where
  "scopus_init key tok file = init_restoring key tok file"

section \<open>The result tree and the checkpoint document\<close>

text \<open>\<open>x[k1][k2]...\<close> read along a path, changed by \<open>f\<close> and stored back in place.\<close>

fun update_at :: "json \<Rightarrow> string list \<Rightarrow> (json \<Rightarrow> error + json) \<Rightarrow> error + json" where
  "update_at x [] f = f x"
| "update_at x (k # ks) f =
     bindE (py_getitem x k) (\<lambda>y. bindE (update_at y ks f) (\<lambda>y'. py_setitem x k y'))"

text \<open>\<open>v + n\<close> for an integer \<open>n\<close>.\<close>

fun py_add_int :: "json \<Rightarrow> int \<Rightarrow> error + json" where
  "py_add_int (JInt m) n = Inr (JInt (m + n))"
| "py_add_int (JBool b) n = Inr (JInt ((if b then 1 else 0) + n))"
| "py_add_int _ n = Inl TypeError"

text \<open>\<open>d["Total records"] += n\<close>.\<close>

definition add_total :: "int \<Rightarrow> json \<Rightarrow> error + json" where
  "add_total n d =
     bindE (py_getitem d ''Total records'') (\<lambda>t.
     bindE (py_add_int t n) (\<lambda>t'. py_setitem d ''Total records'' t'))"

text \<open>\<open>{kw: [] for kw in keywords}\<close> and the two shapes of a new entry of \<open>all_results\<close>.\<close>

definition empty_cells :: "string list \<Rightarrow> json" where
  "empty_cells keywords = JDict (foldl (\<lambda>d kw. dict_set d kw (JList [])) [] keywords)"

definition flat_entry :: "string list \<Rightarrow> json" where
  "flat_entry keywords = JDict [(''Total records'', JInt 0), (''Records'', empty_cells keywords)]"

definition nested_entry :: "string list \<Rightarrow> string list \<Rightarrow> json" where
  "nested_entry bias_names keywords =
     JDict [(''Total records'', JInt 0),
            (''Records'', JDict (foldl (\<lambda>d name. dict_set d name (flat_entry keywords)) [] bias_names))]"

text \<open>
  \<open>if item not in self.all_results: self.all_results[item] = bias_results\<close>, as the
  Springer and Scopus classes have it.
\<close>

definition ensure_entry :: "string \<Rightarrow> json \<Rightarrow> state \<Rightarrow> unit outcome" where
  "ensure_entry item entry s =
     (case py_contains item (all_results s) of
        Inl e \<Rightarrow> Raised e s
      | Inr True \<Rightarrow> Done () s
      | Inr False \<Rightarrow>
          (case py_setitem (all_results s) item entry of
             Inl e \<Rightarrow> Raised e s
           | Inr ar \<Rightarrow> Done () (s\<lparr>all_results := ar\<rparr>)))"

text \<open>
  The same with the \<open>else: bias_results = self.all_results[item]\<close> of the IEEE and PubMed
  classes. \<open>bias_results\<close> is then the object stored under \<open>item\<close>, so what these classes
  write through it is written at that place of \<open>all_results\<close>.
\<close>

definition ensure_entry_alias :: "string \<Rightarrow> json \<Rightarrow> state \<Rightarrow> unit outcome" where
  "ensure_entry_alias item entry s =
     (case py_contains item (all_results s) of
        Inl e \<Rightarrow> Raised e s
      | Inr True \<Rightarrow>
          (case py_getitem (all_results s) item of
             Inl e \<Rightarrow> Raised e s
           | Inr bias_results \<Rightarrow> Done () s)
      | Inr False \<Rightarrow>
          (case py_setitem (all_results s) item entry of
             Inl e \<Rightarrow> Raised e s
           | Inr ar \<Rightarrow> Done () (s\<lparr>all_results := ar\<rparr>)))"

text \<open>
  The three statements that merge a cell in the single-name case:
  \<open>...["Records"][keyword] = recs\<close>, \<open>...["Total records"] += len(recs)\<close>,
  \<open>self.total_saved_records += len(recs)\<close>.
\<close>

definition merge_flat :: "string \<Rightarrow> string \<Rightarrow> json list \<Rightarrow> state \<Rightarrow> unit outcome" where
  "merge_flat item keyword recs s =
     (case update_at (all_results s) [item, ''Records''] (\<lambda>r. py_setitem r keyword (JList recs)) of
        Inl e \<Rightarrow> Raised e s
      | Inr ar1 \<Rightarrow>
          (let s1 = s\<lparr>all_results := ar1, events := events s @ [Stored item None keyword recs]\<rparr> in
           case update_at ar1 [item] (add_total (int (length recs))) of
             Inl e \<Rightarrow> Raised e s1
           | Inr ar2 \<Rightarrow>
               Done () (s1\<lparr>all_results := ar2,
                          total_saved_records := total_saved_records s1 + int (length recs)\<rparr>)))"

text \<open>The four statements that merge a cell in the multi-name case.\<close>

definition merge_nested :: "string \<Rightarrow> string \<Rightarrow> string \<Rightarrow> json list \<Rightarrow> state \<Rightarrow> unit outcome" where
  "merge_nested item name keyword recs s =
     (case update_at (all_results s) [item, ''Records'', name, ''Records'']
             (\<lambda>r. py_setitem r keyword (JList recs)) of
        Inl e \<Rightarrow> Raised e s
      | Inr ar1 \<Rightarrow>
          (let s1 = s\<lparr>all_results := ar1, events := events s @ [Stored item (Some name) keyword recs]\<rparr> in
           case bindE (update_at ar1 [item, ''Records'', name] (add_total (int (length recs))))
                  (\<lambda>ar2. update_at ar2 [item] (add_total (int (length recs)))) of
             Inl e \<Rightarrow> Raised e s1
           | Inr ar3 \<Rightarrow>
               Done () (s1\<lparr>all_results := ar3,
                          total_saved_records := total_saved_records s1 + int (length recs)\<rparr>)))"

text \<open>The dict \<open>checkpoint_data\<close> built after a cell.\<close>

definition checkpoint_doc :: "string \<Rightarrow> nat \<Rightarrow> nat \<Rightarrow> nat \<Rightarrow> state \<Rightarrow> json" where
  "checkpoint_doc index_key i j k s =
     JDict [(''all_results'', all_results s),
            (''total_saved_records'', JInt (total_saved_records s)),
            (index_key, JInt (int i)),
            (''keyword_index'', JInt (int j)),
            (''name_index'', JInt (int k)),
            (''request_counter'', JInt (request_counter s)),
            (''request_log'', JStr (request_log s))]"

text \<open>
  \<open>range(a, len(xs))\<close> together with the element each index selects: the pairs
  \<open>(j, xs[j])\<close> a \<open>for j in range(a, len(xs))\<close> loop goes through.
\<close>

definition enumerate_from :: "nat \<Rightarrow> 'a list \<Rightarrow> (nat \<times> 'a) list" where
  "enumerate_from a xs = zip [a..<length xs] (drop a xs)"

text \<open>The end of \<open>search\<close>: the final document is written and the checkpoint file removed.\<close>

definition finish :: "state \<Rightarrow> unit outcome" where
  "finish s =
     (let final_output = JDict [(''Total'', JInt (total_saved_records s)), (''Biases'', all_results s)];
          s1 = s\<lparr>results_file := Some final_output, events := events s @ [WriteResults final_output]\<rparr>
      in Done () (if checkpoint_file s1 \<noteq> None
                  then s1\<lparr>checkpoint_file := None, events := events s1 @ [RemoveCheckpoint]\<rparr>
                  else s1))"

section \<open>The IEEE connector\<close>

text \<open>\<open>IEEEAPI.form_query\<close>.\<close>

definition form_query :: "string \<Rightarrow> string \<Rightarrow> string" where
  "form_query bias keyword =
     join_strings '' OR ''
       (map (\<lambda>t. ''('' @ [CHR 0x22] @ strip t @ [CHR 0x22] @ '' AND '' @ [CHR 0x22] @ keyword
                  @ [CHR 0x22] @ '')'')
            (split bias '' or ''))"

text \<open>The record the page loop of \<open>IEEEAPI.search\<close> builds from one article.\<close>

definition ieee_record :: "json \<Rightarrow> error + json" where
  "ieee_record article =
     bindE (py_get article ''title'' (JStr ''null'')) (\<lambda>title.
     bindE (py_get article ''abstract'' (JStr ''null'')) (\<lambda>abstract.
     bindE (py_get article ''authors'' (JDict [])) (\<lambda>a.
     bindE (py_get a ''authors'' (JList [])) (\<lambda>al.
     bindE (py_iter al) (\<lambda>author_list.
     bindE (mapE (\<lambda>author. py_get author ''full_name'' (JStr ''null'')) author_list) (\<lambda>names.
     bindE (py_join '', '' names) (\<lambda>authors.
     bindE (py_get article ''doi'' (JStr ''No DOI'')) (\<lambda>doi.
     bindE (py_get article ''publication_year'' (JStr ''null'')) (\<lambda>publication_year.
     bindE (py_get article ''isbn'' (JStr ''null'')) (\<lambda>isbn.
     bindE (py_get article ''issn'' (JStr ''null'')) (\<lambda>issn.
       Inr (JDict [(''title'', title), (''abstract'', abstract), (''authors'', JStr authors),
                   (''doi'', doi), (''isbn'', isbn), (''issn'', issn),
                   (''publication year'', publication_year)]))))))))))))"

text \<open>\<open>v == 0\<close> and \<open>n >= v\<close> for an integer \<open>n\<close> and a parsed JSON value \<open>v\<close>.\<close>

fun eq_zero :: "json \<Rightarrow> bool" where
  "eq_zero (JInt n) = (n = 0)"
| "eq_zero (JBool b) = (\<not> b)"
| "eq_zero _ = False"

fun py_ge :: "int \<Rightarrow> json \<Rightarrow> error + bool" where
  "py_ge n (JInt t) = Inr (n \<ge> t)"
| "py_ge n (JBool b) = Inr (n \<ge> (if b then 1 else 0))"
| "py_ge n _ = Inl TypeError"

text \<open>
  What one pass of the \<open>while True\<close> loop computes from the response: the total, the
  records so far and whether the loop breaks.
\<close>

definition ieee_page :: "json \<Rightarrow> nat \<Rightarrow> json \<Rightarrow> json list \<Rightarrow> error + json \<times> json list \<times> bool" where
  "ieee_page response_data start_record total_records records_for_keyword =
     bindE (if eq_zero total_records then py_get response_data ''total_records'' (JInt 0)
            else Inr total_records) (\<lambda>total.
     bindE (py_get response_data ''articles'' (JList [])) (\<lambda>articles.
     bindE (py_iter articles) (\<lambda>arts.
     bindE (mapE ieee_record arts) (\<lambda>new.
     bindE (py_ge (int start_record + 24) total) (\<lambda>stop.
       Inr (total, records_for_keyword @ new, stop))))))"

text \<open>The integer a total compares as (0 where the comparison raises).\<close>

fun int_of :: "json \<Rightarrow> int" where
  "int_of (JInt n) = n"
| "int_of (JBool b) = (if b then 1 else 0)"
| "int_of _ = 0"

text \<open>The total the loop works with once the response of this pass is in.\<close>

definition ieee_total :: "network \<Rightarrow> string \<Rightarrow> nat \<Rightarrow> json \<Rightarrow> json list \<Rightarrow> state \<Rightarrow> int" where
  "ieee_total net query_text start_record total_records recs s =
     (case ieee_call_api net query_text start_record s of
        Done response_data s1 \<Rightarrow>
          (case ieee_page response_data start_record total_records recs of
             Inr (tr, recs', stop) \<Rightarrow> int_of tr
           | Inl e \<Rightarrow> 0)
      | _ \<Rightarrow> 0)"

text \<open>Why the loop below ends: a pass that does not break has read a total beyond its offset,
  and that total stays.\<close>

lemma bindE_eq_Inr: "bindE m f = Inr y \<longleftrightarrow> (\<exists>x. m = Inr x \<and> f x = Inr y)"
  by (cases m) auto

lemma py_ge_False: "py_ge n t = Inr False \<Longrightarrow> n < int_of t \<and> (0 \<le> n \<longrightarrow> \<not> eq_zero t)"
  by (cases t) (auto split: if_splits)

lemma ieee_page_continue:
  "ieee_page r st tot recs = Inr (t, rs, False) \<Longrightarrow> int st + 24 < int_of t \<and> \<not> eq_zero t"
  by (auto simp: ieee_page_def bindE_eq_Inr dest!: py_ge_False)

lemma ieee_page_keeps_total:
  "\<not> eq_zero tot \<Longrightarrow> ieee_page r st tot recs = Inr (t, rs, b) \<Longrightarrow> t = tot"
  by (auto simp: ieee_page_def bindE_eq_Inr)

lemma ieee_total_next:
  "\<not> eq_zero tot \<Longrightarrow>
   ieee_total net q st tot recs s = 0 \<or> ieee_total net q st tot recs s = int_of tot"
  by (auto simp: ieee_total_def dest: ieee_page_keeps_total split: outcome.splits sum.splits)

text \<open>The \<open>while True\<close> loop of one cell.\<close>

function ieee_pages :: "network \<Rightarrow> string \<Rightarrow> nat \<Rightarrow> json \<Rightarrow> json list \<Rightarrow> state \<Rightarrow> json list outcome" where
  "ieee_pages net query_text start_record total_records records_for_keyword s =
     (case ieee_call_api net query_text start_record s of
        Done response_data s1 \<Rightarrow>
          (case ieee_page response_data start_record total_records records_for_keyword of
             Inl e \<Rightarrow> Raised e s1
           | Inr (tr, recs, stop) \<Rightarrow>
               if stop then Done recs s1
               else ieee_pages net query_text (start_record + 25) tr recs s1)
      | Raised e s1 \<Rightarrow> Raised e s1
      | OutOfFuel \<Rightarrow> OutOfFuel)"
  by pat_completeness auto
termination
proof (relation "measure (\<lambda>(net, q, st, tot, recs, s). nat (ieee_total net q st tot recs s - int st))", goal_cases)
  case 1
  show ?case by simp
next
  case (2 net q st tot recs s r s1 b t y rs stop)
  then have page: "ieee_page r st tot recs = Inr (t, rs, False)" by auto
  from ieee_page_continue[OF page] have gt: "int st + 24 < int_of t" and nz: "\<not> eq_zero t" by auto
  have now: "ieee_total net q st tot recs s = int_of t"
    using 2(1) page by (simp add: ieee_total_def)
  from ieee_total_next[OF nz, of net q "st + 25" rs s1] gt now
  show ?case by auto
qed

declare ieee_pages.simps [simp del]

text \<open>
  The keyword loop of the single-name branch of \<open>IEEEAPI.search\<close>, over the pairs
  \<open>(j, keywords[j])\<close>.
\<close>

fun ieee_keywords_flat :: "network \<Rightarrow> nat \<Rightarrow> string \<Rightarrow> (nat \<times> string) list \<Rightarrow> state \<Rightarrow> unit outcome" where
  "ieee_keywords_flat net i query [] s = Done () s"
| "ieee_keywords_flat net i query ((j, keyword) # rest) s =
     and_then (ieee_pages net (form_query query keyword) 1 (JInt 0) [] s) (\<lambda>recs s1.
     and_then (merge_flat query keyword recs s1) (\<lambda>u s2.
     and_then (save_checkpoint (checkpoint_doc ''query_index'' i (j + 1) 0 s2) s2) (\<lambda>u s3.
       ieee_keywords_flat net i query rest s3)))"

text \<open>The keyword loop of one bias name \<open>bias_names[k]\<close> in the multi-name branch.\<close>

fun ieee_keywords_nested :: "network \<Rightarrow> nat \<Rightarrow> string \<Rightarrow> nat \<Rightarrow> string \<Rightarrow> (nat \<times> string) list \<Rightarrow> state \<Rightarrow> unit outcome" where
  "ieee_keywords_nested net i query k name [] s = Done () s"
| "ieee_keywords_nested net i query k name ((j, keyword) # rest) s =
     and_then (ieee_pages net (form_query name keyword) 1 (JInt 0) [] s) (\<lambda>recs s1.
     and_then (merge_nested query name keyword recs s1) (\<lambda>u s2.
     and_then (save_checkpoint (checkpoint_doc ''query_index'' i (j + 1) k s2) s2) (\<lambda>u s3.
       ieee_keywords_nested net i query k name rest s3)))"

text \<open>The loop over the bias names, with \<open>self.keyword_index = 0\<close> after each name.\<close>

fun ieee_names :: "network \<Rightarrow> nat \<Rightarrow> string \<Rightarrow> string list \<Rightarrow> (nat \<times> string) list \<Rightarrow> state \<Rightarrow> unit outcome" where
  "ieee_names net i query keywords [] s = Done () s"
| "ieee_names net i query keywords ((k, name) # rest) s =
     and_then (ieee_keywords_nested net i query k name (enumerate_from (keyword_index s) keywords) s)
       (\<lambda>u s1. ieee_names net i query keywords rest (s1\<lparr>keyword_index := 0\<rparr>))"

text \<open>The body of the outer loop for the primary term \<open>query_terms[i]\<close>.\<close>

definition ieee_term :: "network \<Rightarrow> string list \<Rightarrow> nat \<Rightarrow> string \<Rightarrow> state \<Rightarrow> unit outcome" where
  "ieee_term net keywords i query s =
     (let bias_names = split query '' or '' in
      and_then
        (if length bias_names = 1 then
           and_then (ensure_entry_alias query (flat_entry keywords) s) (\<lambda>u s1.
           and_then (ieee_keywords_flat net i query (enumerate_from (keyword_index s1) keywords) s1)
             (\<lambda>u s2. Done () (s2\<lparr>keyword_index := 0\<rparr>)))
         else
           and_then (ensure_entry_alias query (nested_entry bias_names keywords) s) (\<lambda>u s1.
           and_then (ieee_names net i query keywords (enumerate_from (name_index s1) bias_names) s1)
             (\<lambda>u s2. Done () (s2\<lparr>name_index := 0\<rparr>))))
        (\<lambda>u s3. Done () (s3\<lparr>keyword_index := 0, name_index := 0\<rparr>)))"

fun ieee_terms :: "network \<Rightarrow> string list \<Rightarrow> (nat \<times> string) list \<Rightarrow> state \<Rightarrow> unit outcome" where
  "ieee_terms net keywords [] s = Done () s"
| "ieee_terms net keywords ((i, query) # rest) s =
     and_then (ieee_term net keywords i query s) (\<lambda>u s1. ieee_terms net keywords rest s1)"

text \<open>\<open>IEEEAPI.search\<close>.\<close>

definition ieee_search :: "network \<Rightarrow> string list \<Rightarrow> string list \<Rightarrow> state \<Rightarrow> unit outcome" where
  "ieee_search net query_terms keywords s =
     and_then (ieee_terms net keywords (enumerate_from (item_index s) query_terms) s)
       (\<lambda>u s1. finish s1)"

section \<open>The record parsers of the Springer, Scopus and PubMed connectors\<close>

text \<open>The record \<open>SpringerAPI.extract_data\<close> builds from one element of \<open>records\<close>.\<close>

definition springer_record :: "json \<Rightarrow> error + json" where
  "springer_record record =
     bindE (py_get record ''title'' (JStr ''null'')) (\<lambda>title.
     bindE (py_get record ''abstract'' (JStr ''null'')) (\<lambda>abstract.
     bindE (py_get record ''creators'' (JList [])) (\<lambda>cs.
     bindE (py_iter cs) (\<lambda>creators.
     bindE (mapE (\<lambda>author. py_get author ''creator'' (JStr ''null'')) creators) (\<lambda>names.
     bindE (py_join '', '' names) (\<lambda>authors.
     bindE (py_get record ''doi'' (JStr ''No DOI'')) (\<lambda>doi.
     bindE (py_get record ''isbn'' (JStr ''null'')) (\<lambda>isbn.
     bindE (py_get record ''issn'' (JStr ''null'')) (\<lambda>issn.
     bindE (py_get record ''publicationDate'' (JStr ''null'')) (\<lambda>publicationDate.
       Inr (JDict [(''title'', title), (''abstract'', abstract), (''authors'', JStr authors),
                   (''doi'', doi), (''isbn'', isbn), (''issn'', issn),
                   (''publicationDate'', publicationDate)])))))))))))"

text \<open>\<open>SpringerAPI.extract_data\<close>.\<close>

definition springer_extract_data :: "json \<Rightarrow> error + json list" where
  "springer_extract_data data =
     bindE (py_get data ''records'' (JList [])) (\<lambda>rs.
     bindE (py_iter rs) (\<lambda>records. mapE springer_record records))"

text \<open>\<open>x.split("-")[0]\<close>: only a string has the method.\<close>

fun split_dash_first :: "json \<Rightarrow> error + json" where
  "split_dash_first (JStr s) = Inr (JStr (hd (split s ''-'')))"
| "split_dash_first _ = Inl AttributeError"

text \<open>\<open>any(d.values())\<close> for a dict \<open>d\<close>.\<close>

fun any_values :: "json \<Rightarrow> bool" where
  "any_values (JDict kvs) = list_ex truthy (map snd kvs)"
| "any_values _ = False"

text \<open>
  The dict \<open>ScopusAPI.extract_titles_and_abstracts\<close> builds from one entry: \<open>entry.get(k)\<close>
  without a default gives \<open>None\<close> for a missing key.
\<close>

definition scopus_record :: "json \<Rightarrow> error + json" where
  "scopus_record entry =
     bindE (py_get entry ''dc:title'' JNull) (\<lambda>title.
     bindE (py_get entry ''dc:description'' JNull) (\<lambda>abstract.
     bindE (py_get entry ''author'' (JList [])) (\<lambda>al.
     bindE (py_iter al) (\<lambda>author_list.
     bindE (mapE (\<lambda>author. py_get author ''authname'' (JStr ''null'')) author_list) (\<lambda>names.
     bindE (py_join '', '' names) (\<lambda>authors.
     bindE (py_get entry ''prism:doi'' JNull) (\<lambda>doi.
     bindE (py_get entry ''prism:isbn'' (JStr ''null'')) (\<lambda>isbn.
     bindE (py_get entry ''prism:issn'' (JStr ''null'')) (\<lambda>issn.
     bindE (py_get entry ''prism:coverDate'' (JStr [])) (\<lambda>cover_date.
     bindE (split_dash_first cover_date) (\<lambda>publication_year.
       Inr (JDict [(''title'', title), (''abstract'', abstract), (''authors'', JStr authors),
                   (''doi'', doi), (''isbn'', isbn), (''issn'', issn),
                   (''publication year'', publication_year)]))))))))))))"

text \<open>The loop over the entries: a dict is appended when one of its values is truthy.\<close>

fun scopus_entries :: "json list \<Rightarrow> json list \<Rightarrow> error + json list" where
  "scopus_entries [] results = Inr results"
| "scopus_entries (entry # entries) results =
     bindE (scopus_record entry) (\<lambda>article_data.
       scopus_entries entries
         (if any_values article_data then results @ [article_data] else results))"

text \<open>\<open>ScopusAPI.extract_titles_and_abstracts\<close>.\<close>

definition scopus_extract_titles_and_abstracts :: "json \<Rightarrow> error + json list" where
  "scopus_extract_titles_and_abstracts data =
     bindE (py_get data ''search-results'' (JDict [])) (\<lambda>sr.
     bindE (py_get sr ''entry'' (JList [])) (\<lambda>es.
     bindE (py_iter es) (\<lambda>entries. scopus_entries entries [])))"

text \<open>
  \<open>e.findall(path)\<close> and \<open>e.find(path)\<close> of \<open>xml.etree.ElementTree\<close> for a path of tags
  \<open>a/b/c\<close>: the elements reached from \<open>e\<close> through children with these tags, in document
  order, and the first of them (\<open>None\<close> when there is none).
\<close>

fun xml_findall :: "string list \<Rightarrow> xml \<Rightarrow> xml list" where
  "xml_findall [] e = [e]"
| "xml_findall (t # ts) e = concat (map (xml_findall ts) (filter (\<lambda>c. tag c = t) (children e)))"

definition xml_find :: "string list \<Rightarrow> xml \<Rightarrow> xml option" where
  "xml_find path e = (case xml_findall path e of [] \<Rightarrow> None | x # xs \<Rightarrow> Some x)"

text \<open>\<open>e.text\<close> as a JSON value: \<open>None\<close> for an element without text.\<close>

definition text_of :: "xml \<Rightarrow> json" where
  "text_of e = (case etext e of None \<Rightarrow> JNull | Some t \<Rightarrow> JStr t)"

text \<open>One pass of the loop over the children of \<open>ArticleIdList\<close>.\<close>

definition pubmed_article_id :: "xml \<Rightarrow> (string \<times> json) list \<Rightarrow> (string \<times> json) list" where
  "pubmed_article_id article_id article_data =
     (if map_of (attrib article_id) ''IdType'' = Some ''doi''
      then dict_set article_data ''doi'' (text_of article_id)
      else if map_of (attrib article_id) ''IdType'' = Some ''isbn''
      then dict_set article_data ''isbn'' (text_of article_id)
      else article_data)"

text \<open>
  The name of one author: \<open>LastName\<close> and \<open>ForeName\<close> joined by a space when both
  elements are there (\<open>None + " "\<close> raises when one of them has no text), else \<open>"null"\<close>.
\<close>

definition pubmed_author :: "xml \<Rightarrow> error + json" where
  "pubmed_author author =
     (case (xml_find [''LastName''] author, xml_find [''ForeName''] author) of
        (Some l, Some f) \<Rightarrow>
          (case (etext l, etext f) of
             (Some x, Some y) \<Rightarrow> Inr (JStr (x @ '' '' @ y))
           | _ \<Rightarrow> Inl TypeError)
      | _ \<Rightarrow> Inr (JStr ''null''))"

text \<open>
  The dict \<open>PubMedAPI.extract_pubmed_data\<close> builds from one \<open>PubmedArticle\<close>; \<open>None\<close> when
  the article has no \<open>MedlineCitation\<close> (\<open>continue\<close>). Only \<open>title\<close> is always set.
\<close>

definition pubmed_article_data :: "xml \<Rightarrow> error + json option" where
  "pubmed_article_data pubmed_article =
     (case xml_find [''MedlineCitation''] pubmed_article of
        None \<Rightarrow> Inr None
      | Some medline_citation \<Rightarrow>
          (let d0 = [(''title'',
                 case xml_find [''Article'', ''ArticleTitle''] medline_citation of
                   None \<Rightarrow> JStr ''null''
                 | Some article_title \<Rightarrow> text_of article_title)];
               article = xml_find [''Article''] medline_citation;
               abstract = (case article of None \<Rightarrow> None
                           | Some a \<Rightarrow> xml_find [''Abstract'', ''AbstractText''] a);
               d1 = (case abstract of None \<Rightarrow> d0
                     | Some x \<Rightarrow> dict_set d0 ''abstract'' (text_of x));
               d2 = (case xml_find [''PubmedData'', ''ArticleIdList''] pubmed_article of
                       None \<Rightarrow> d1
                     | Some article_ids \<Rightarrow> fold pubmed_article_id (children article_ids) d1);
               journal = (case article of None \<Rightarrow> None | Some a \<Rightarrow> xml_find [''Journal''] a);
               issn = (case journal of None \<Rightarrow> None | Some j \<Rightarrow> xml_find [''ISSN''] j);
               d3 = (case issn of None \<Rightarrow> d2 | Some x \<Rightarrow> dict_set d2 ''issn'' (text_of x));
               pub_date = (case article of None \<Rightarrow> None
                           | Some a \<Rightarrow> xml_find [''Journal'', ''JournalIssue'', ''PubDate'', ''Year''] a);
               d4 = (case pub_date of None \<Rightarrow> d3
                     | Some x \<Rightarrow> dict_set d3 ''publication year'' (text_of x));
               authors = (case article of None \<Rightarrow> None | Some a \<Rightarrow> xml_find [''AuthorList''] a)
           in case authors of
                None \<Rightarrow> Inr (Some (JDict d4))
              | Some author_list \<Rightarrow>
                  bindE (mapE pubmed_author (xml_findall [''Author''] author_list)) (\<lambda>author_names.
                  bindE (py_join '', '' author_names) (\<lambda>joined.
                    Inr (Some (JDict (dict_set d4 ''authors'' (JStr joined))))))))"

text \<open>The loop over the articles: a dict is appended when one of its values is truthy.\<close>

fun pubmed_articles :: "xml list \<Rightarrow> json list \<Rightarrow> error + json list" where
  "pubmed_articles [] articles = Inr articles"
| "pubmed_articles (a # as) articles =
     bindE (pubmed_article_data a) (\<lambda>r.
       case r of
         None \<Rightarrow> pubmed_articles as articles
       | Some article_data \<Rightarrow>
           pubmed_articles as
             (if any_values article_data then articles @ [article_data] else articles))"

text \<open>\<open>PubMedAPI.extract_pubmed_data\<close>: \<open>ET.fromstring\<close> raises for a body that is not XML.\<close>

definition extract_pubmed_data :: "payload \<Rightarrow> error + json list" where
  "extract_pubmed_data xml_content =
     (case xml_content of
        Xml root \<Rightarrow> pubmed_articles (xml_findall [''PubmedArticle''] root) []
      | _ \<Rightarrow> Inl ParseError)"

section \<open>The Springer connector\<close>

text \<open>
  \<open>int(x)\<close>: an integer stays, a boolean is 0 or 1, a string is read as an optional sign
  and decimal digits (single underscores between digits allowed) with whitespace around
  them stripped; anything else raises.
\<close>

definition digit_of :: "char \<Rightarrow> nat option" where
  "digit_of c = (let n = (of_char c :: nat) in if 48 \<le> n \<and> n \<le> 57 then Some (n - 48) else None)"

fun decimal :: "string \<Rightarrow> nat \<Rightarrow> bool \<Rightarrow> nat option" where
  "decimal [] acc after_digit = (if after_digit then Some acc else None)"
| "decimal (c # cs) acc after_digit =
     (if c = CHR ''_'' then (if after_digit \<and> cs \<noteq> [] then decimal cs acc False else None)
      else case digit_of c of
             None \<Rightarrow> None
           | Some d \<Rightarrow> decimal cs (10 * acc + d) True)"

definition parse_int :: "string \<Rightarrow> int option" where
  "parse_int s =
     (case strip s of
        [] \<Rightarrow> None
      | c # cs \<Rightarrow>
          if c = CHR ''-'' then map_option (\<lambda>n. - int n) (decimal cs 0 False)
          else if c = CHR ''+'' then map_option int (decimal cs 0 False)
          else map_option int (decimal (c # cs) 0 False))"

fun py_int :: "json \<Rightarrow> error + int" where
  "py_int (JInt n) = Inr n"
| "py_int (JBool b) = Inr (if b then 1 else 0)"
| "py_int (JStr s) = (case parse_int s of Some n \<Rightarrow> Inr n | None \<Rightarrow> Inl ValueError)"
| "py_int _ = Inl TypeError"

text \<open>\<open>s + x\<close> for a string \<open>s\<close>.\<close>

fun py_concat :: "string \<Rightarrow> json \<Rightarrow> error + string" where
  "py_concat s (JStr t) = Inr (s @ t)"
| "py_concat s _ = Inl TypeError"

definition springer_base_url :: string where
  "springer_base_url = ''https://api.springernature.com''"

text \<open>The query and the first URL of a cell, in the single-name and in the multi-name branch.\<close>

definition springer_query :: "string \<Rightarrow> string \<Rightarrow> string" where
  "springer_query name keyword =
     ''('' @ [CHR 0x22] @ strip name @ [CHR 0x22] @ '' AND '' @ [CHR 0x22] @ keyword
     @ [CHR 0x22] @ '')''"

definition springer_url_flat :: "state \<Rightarrow> string \<Rightarrow> string \<Rightarrow> string" where
  "springer_url_flat s name keyword =
     springer_base_url @ ''/openaccess/json'' @ ''?q='' @ springer_query name keyword
     @ ''&api_key='' @ api_key s"

definition springer_url_nested :: "state \<Rightarrow> string \<Rightarrow> string \<Rightarrow> string" where
  "springer_url_nested s name keyword =
     springer_base_url @ ''/openaccess/json'' @ ''?q='' @ springer_query name keyword
     @ ''&api_key='' @ api_key s @ ''&p=100&s=1''"

text \<open>\<open>int(data["result"][0]["total"])\<close>.\<close>

definition springer_total :: "json \<Rightarrow> error + int" where
  "springer_total data =
     bindE (py_getitem data ''result'') (\<lambda>result.
     bindE (py_getitem0 result) (\<lambda>first.
     bindE (py_getitem first ''total'') py_int))"

text \<open>
  The \<open>while current_url\<close> loop of one cell; the URL is never empty when the loop tests
  it. The backend may hand out a next page for ever, so the loop is given fuel, one unit
  for each request.
\<close>

fun springer_pages :: "nat \<Rightarrow> network \<Rightarrow> string \<Rightarrow> int \<Rightarrow> json list \<Rightarrow> state \<Rightarrow> json list outcome" where
  "springer_pages 0 net current_url total_records item_results s = OutOfFuel"
| "springer_pages (Suc fuel) net current_url total_records item_results s =
     and_then (springer_get_data_from_url net current_url (sleep 1 s)) (\<lambda>data s1.
       if \<not> truthy data then Done item_results s1
       else
         and_then (lift (if total_records = 0 then springer_total data else Inr total_records) s1)
           (\<lambda>total s2.
         and_then (lift (springer_extract_data data) s2) (\<lambda>new s3.
         and_then (lift (py_get data ''nextPage'' JNull) s3) (\<lambda>next_page s4.
           if truthy next_page then
             and_then (lift (py_concat springer_base_url next_page) s4) (\<lambda>url s5.
               springer_pages fuel net url total (item_results @ new) s5)
           else Done (item_results @ new) s4))))"

text \<open>The keyword loop of the single-name branch of \<open>SpringerAPI.search\<close>.\<close>

fun springer_keywords_flat :: "nat \<Rightarrow> network \<Rightarrow> nat \<Rightarrow> string \<Rightarrow> string list \<Rightarrow> (nat \<times> string) list \<Rightarrow> state \<Rightarrow> unit outcome" where
  "springer_keywords_flat fuel net i item bias_names [] s = Done () s"
| "springer_keywords_flat fuel net i item bias_names ((j, keyword) # rest) s =
     and_then (springer_pages fuel net (springer_url_flat s (hd bias_names) keyword) 0 [] s)
       (\<lambda>item_results s1.
     and_then (merge_flat item keyword item_results s1) (\<lambda>u s2.
     and_then (save_checkpoint (checkpoint_doc ''item_index'' i (j + 1) 0 s2) s2) (\<lambda>u s3.
       springer_keywords_flat fuel net i item bias_names rest s3)))"

text \<open>The keyword loop of one bias name \<open>bias_names[k]\<close> in the multi-name branch.\<close>

fun springer_keywords_nested :: "nat \<Rightarrow> network \<Rightarrow> nat \<Rightarrow> string \<Rightarrow> nat \<Rightarrow> string \<Rightarrow> (nat \<times> string) list \<Rightarrow> state \<Rightarrow> unit outcome" where
  "springer_keywords_nested fuel net i item k name [] s = Done () s"
| "springer_keywords_nested fuel net i item k name ((j, keyword) # rest) s =
     and_then (springer_pages fuel net (springer_url_nested s name keyword) 0 [] s)
       (\<lambda>item_results s1.
     and_then (merge_nested item name keyword item_results s1) (\<lambda>u s2.
     and_then (save_checkpoint (checkpoint_doc ''item_index'' i (j + 1) k s2) s2) (\<lambda>u s3.
       springer_keywords_nested fuel net i item k name rest s3)))"

text \<open>The loop over the bias names, with \<open>self.keyword_index = 0\<close> after each name.\<close>

fun springer_names :: "nat \<Rightarrow> network \<Rightarrow> nat \<Rightarrow> string \<Rightarrow> string list \<Rightarrow> (nat \<times> string) list \<Rightarrow> state \<Rightarrow> unit outcome" where
  "springer_names fuel net i item keywords [] s = Done () s"
| "springer_names fuel net i item keywords ((k, name) # rest) s =
     and_then (springer_keywords_nested fuel net i item k name
                 (enumerate_from (keyword_index s) keywords) s)
       (\<lambda>u s1. springer_names fuel net i item keywords rest (s1\<lparr>keyword_index := 0\<rparr>))"

text \<open>
  The body of the outer loop for the primary term \<open>initial_terms[i]\<close>. It ends with
  \<open>self.name_index = 0\<close>; the single-name branch leaves \<open>keyword_index\<close> as it found it.
\<close>

definition springer_term :: "nat \<Rightarrow> network \<Rightarrow> string list \<Rightarrow> nat \<Rightarrow> string \<Rightarrow> state \<Rightarrow> unit outcome" where
  "springer_term fuel net secondary_terms i item s =
     (let bias_names = split item '' or '' in
      and_then
        (if length bias_names = 1 then
           and_then (ensure_entry item (flat_entry secondary_terms) s) (\<lambda>u s1.
             springer_keywords_flat fuel net i item bias_names
               (enumerate_from (keyword_index s1) secondary_terms) s1)
         else
           and_then (ensure_entry item (nested_entry bias_names secondary_terms) s) (\<lambda>u s1.
             springer_names fuel net i item secondary_terms
               (enumerate_from (name_index s1) bias_names) s1))
        (\<lambda>u s2. Done () (s2\<lparr>name_index := 0\<rparr>)))"

fun springer_terms :: "nat \<Rightarrow> network \<Rightarrow> string list \<Rightarrow> (nat \<times> string) list \<Rightarrow> state \<Rightarrow> unit outcome" where
  "springer_terms fuel net secondary_terms [] s = Done () s"
| "springer_terms fuel net secondary_terms ((i, item) # rest) s =
     and_then (springer_term fuel net secondary_terms i item s)
       (\<lambda>u s1. springer_terms fuel net secondary_terms rest s1)"

text \<open>\<open>SpringerAPI.search\<close>.\<close>

definition springer_search :: "nat \<Rightarrow> network \<Rightarrow> string list \<Rightarrow> string list \<Rightarrow> state \<Rightarrow> unit outcome" where
  "springer_search fuel net initial_terms secondary_terms s =
     and_then (springer_terms fuel net secondary_terms (enumerate_from (item_index s) initial_terms) s)
       (\<lambda>u s1. finish s1)"

section \<open>Reading an outcome\<close>

text \<open>The state a call ends in, by returning or by raising.\<close>

fun outcome_state :: "'a outcome \<Rightarrow> state option" where
  "outcome_state (Done a s) = Some s"
| "outcome_state (Raised e s) = Some s"
| "outcome_state OutOfFuel = None"

text \<open>The URLs requested and the number of times the checkpoint file was written.\<close>

fun requested :: "event list \<Rightarrow> string list" where
  "requested [] = []"
| "requested (HttpGet url # es) = url # requested es"
| "requested (e # es) = requested es"

section \<open>Example inputs\<close>

text \<open>A backend that answers every request with status 200 and the empty JSON object.\<close>

definition answers_empty :: network where
  "answers_empty history url = Response 200 (Json (JDict []))"

text \<open>An instance in the middle of a run: three requests made, one cell checkpointed.\<close>

definition midrun :: state where
  "midrun = (new_instance ''key'' [] None)
     \<lparr>request_counter := 3, request_log := ''three lines'',
      all_results := JDict [(''A'', flat_entry [''k0'', ''k1''])], keyword_index := 1\<rparr>"

text \<open>An instance whose request counter has reached the daily budget.\<close>

definition at_budget :: state where
  "at_budget = (new_instance ''key'' [] None)\<lparr>request_counter := 500\<rparr>"

text \<open>A fresh instance whose daily budget is set to 2.\<close>

definition budget2 :: state where
  "budget2 = (new_instance ''key'' [] None)\<lparr>max_requests_per_day := 2\<rparr>"

text \<open>A backend that reports 30 records in total on every page, and no articles.\<close>

definition answers_thirty :: network where
  "answers_thirty history url =
     Response 200 (Json (JDict [(''total_records'', JInt 30), (''articles'', JList [])]))"

text \<open>
  A backend that answers the first request with status 404 and every later one with status
  200 and the empty JSON object.
\<close>

definition answers_404_first :: network where
  "answers_404_first history url =
     (if requested history = [] then Response 404 (Json (JDict []))
      else Response 200 (Json (JDict [])))"

text \<open>A backend that cannot be reached.\<close>

definition unreachable :: network where
  "unreachable history url = NoResponse"

text \<open>Three requests in a row through a connector's call, as its page loop makes them.\<close>

definition three_requests :: "(network \<Rightarrow> string \<Rightarrow> state \<Rightarrow> 'a outcome) \<Rightarrow> network \<Rightarrow> state \<Rightarrow> 'a outcome" where
  "three_requests call net s =
     and_then (call net ''u1'' s) (\<lambda>r1 s1.
     and_then (call net ''u2'' s1) (\<lambda>r2 s2. call net ''u3'' s2))"



text \<open>A PubMed answer with one article, whose title is empty and which has nothing else.\<close>

definition pubmed_empty_title :: payload where
  "pubmed_empty_title =
     Xml (Element ''PubmedArticleSet'' [] None
       [Element ''PubmedArticle'' [] None
         [Element ''MedlineCitation'' [] None
           [Element ''Article'' [] None
             [Element ''ArticleTitle'' [] None []]]]])"

text \<open>A Scopus page with one entry, which has no field at all.\<close>

definition scopus_empty_entry :: json where
  "scopus_empty_entry =
     JDict [(''search-results'', JDict [(''entry'', JList [JDict []])])]"

text \<open>A Springer page with two records, which have no field at all.\<close>

definition springer_empty_records :: json where
  "springer_empty_records = JDict [(''records'', JList [JDict [], JDict []])]"

text \<open>
  A Springer run resumed from the checkpoint that a first run wrote after its first cell
  (term \<open>A\<close>, keyword \<open>k0\<close>): two single-name terms, two keywords, a backend that has
  nothing for any query.
\<close>

definition resumed_springer_run :: "unit outcome" where
  "resumed_springer_run =
     and_then (springer_init ''key'' (Some (checkpoint_doc ''item_index'' 0 1 0 midrun)))
       (\<lambda>u s. springer_search 1 answers_empty [''A'', ''B''] [''k0'', ''k1''] s)"

text \<open>The cells a run has stored, as (primary term, bias name, keyword), in order.\<close>

fun stored_cells :: "event list \<Rightarrow> (string \<times> string option \<times> string) list" where
  "stored_cells [] = []"
| "stored_cells (Stored item name keyword recs # es) = (item, name, keyword) # stored_cells es"
| "stored_cells (e # es) = stored_cells es"

section \<open>Checkpoint round trip\<close>

lemma dict_set_same: "map_of kvs k = Some v \<Longrightarrow> dict_set kvs k v = kvs"
  by (induction kvs) (auto split: if_splits)

lemma py_setitem_same: "py_getitem d k = Inr v \<Longrightarrow> py_setitem d k v = Inr d"
  by (cases d) (auto simp: dict_set_same split: option.splits)

lemma py_get_of_getitem: "py_getitem d k = Inr v \<Longrightarrow> py_get d k dflt = Inr v"
  by (cases d) (auto split: option.splits)

text \<open>
  C10. A checkpoint document \<open>C\<close> whose \<open>request_counter\<close> and \<open>request_log\<close> entries are the
  instance's current counter and log is written by \<open>save_checkpoint\<close> unchanged, and both
  \<open>load_checkpoint\<close> methods then return exactly \<open>C\<close>: every entry of the document (indices,
  \<open>all_results\<close>, \<open>total_saved_records\<close>, counter, log) comes back as it was saved. The
  Springer/Scopus variant also leaves the instance as it is.
\<close>

theorem checkpoint_roundtrip:
  assumes "py_getitem C ''request_counter'' = Inr (JInt (request_counter s))"
    and "py_getitem C ''request_log'' = Inr (JStr (request_log s))"
  shows "\<exists>s'. save_checkpoint C s = Done () s' \<and> load_checkpoint s' = Some C
      \<and> load_checkpoint_restoring s' = Done (Some C) s'"
proof -
  have 1: "py_setitem C ''request_counter'' (JInt (request_counter s)) = Inr C"
    using assms(1) by (rule py_setitem_same)
  have 2: "py_setitem C ''request_log'' (JStr (request_log s)) = Inr C"
    using assms(2) by (rule py_setitem_same)
  have g1: "py_get C ''request_counter'' (JInt 0) = Inr (JInt (request_counter s))"
    using assms(1) by (rule py_get_of_getitem)
  have g2: "py_get C ''request_log'' (JStr []) = Inr (JStr (request_log s))"
    using assms(2) by (rule py_get_of_getitem)
  show ?thesis
    by (simp add: save_checkpoint_def 1 2 load_checkpoint_def load_checkpoint_restoring_def g1 g2)
qed

text \<open>The document \<open>search\<close> builds after a cell, saved and loaded in the middle of a run.\<close>

theorem checkpoint_roundtrip_witness:
  "\<exists>s'. save_checkpoint (checkpoint_doc ''item_index'' 0 1 0 midrun) midrun = Done () s'
     \<and> load_checkpoint s' = Some (checkpoint_doc ''item_index'' 0 1 0 midrun)
     \<and> load_checkpoint_restoring s' = Done (Some (checkpoint_doc ''item_index'' 0 1 0 midrun)) s'"
  using checkpoint_roundtrip [of "checkpoint_doc ''item_index'' 0 1 0 midrun" midrun]
  by (simp add: checkpoint_doc_def)


section \<open>Request accounting and the daily budget\<close>

lemma budget_pause_events:
  "events (budget_pause s) = events s @ (if request_counter s \<ge> max_requests_per_day s then [Sleep 86400] else [])"
  by (simp add: budget_pause_def sleep_def)

lemma budget_pause_counter:
  "request_counter (budget_pause s) = (if request_counter s \<ge> max_requests_per_day s then 0 else request_counter s)"
  by (simp add: budget_pause_def sleep_def)

lemma budget_pause_log: "request_log (budget_pause s) = request_log s"
  by (simp add: budget_pause_def sleep_def)

lemma budget_pause_max: "max_requests_per_day (budget_pause s) = max_requests_per_day s"
  by (simp add: budget_pause_def sleep_def)

text \<open>
  What one call does, whatever the backend answers: it ends, by returning or by raising,
  with one request made, one line logged, and the counter moved or not as the answer was.
\<close>

lemma ieee_call_api_total:
  "\<exists>s'. outcome_state (ieee_call_api net q st s) = Some s'
     \<and> events s' = events s @ [Sleep 1, HttpGet (ieee_url s q st)]
     \<and> request_log s' = request_log s @ log_line ''IEEE'' (request_counter s + 1) (ieee_url s q st)
     \<and> request_counter s' = request_counter s
         + (case net (events s @ [Sleep 1]) (ieee_url s q st) of
              NoResponse \<Rightarrow> 0
            | Response status body \<Rightarrow>
                if 200 \<le> status \<and> status < 300 \<and> body \<noteq> Undecodable then 1 else 0)"
  by (simp add: ieee_call_api_def http_get_def sleep_def Let_def ieee_url_def
      split: http.splits payload.splits)

lemma springer_get_total:
  "\<exists>s'. outcome_state (springer_get_data_from_url net url s) = Some s'
     \<and> events s' = events (budget_pause s) @ [HttpGet url]
     \<and> request_log s' = request_log s @ log_line ''Springer'' (request_counter (budget_pause s) + 1) url
     \<and> request_counter s' = request_counter (budget_pause s)
         + (case net (events (budget_pause s)) url of
              Response status (Json j) \<Rightarrow> 1
            | _ \<Rightarrow> 0)
     \<and> max_requests_per_day s' = max_requests_per_day s"
  by (simp add: springer_get_data_from_url_def http_get_def Let_def budget_pause_log
      budget_pause_max split: http.splits payload.splits)

lemma scopus_get_total:
  "\<exists>s'. outcome_state (scopus_get_data_from_url net url s) = Some s'
     \<and> events s' = events (budget_pause s) @ [HttpGet url]
     \<and> request_log s' = request_log s @ log_line ''Scopus'' (request_counter (budget_pause s) + 1) url
     \<and> request_counter s' = request_counter (budget_pause s)
         + (case net (events (budget_pause s)) url of
              Response status (Json j) \<Rightarrow> if status = 200 then 1 else 0
            | _ \<Rightarrow> 0)
     \<and> max_requests_per_day s' = max_requests_per_day s"
  by (simp add: scopus_get_data_from_url_def http_get_def Let_def budget_pause_log
      budget_pause_max split: http.splits payload.splits)

lemma pubmed_get_total:
  "\<exists>s'. outcome_state (pubmed_get_data_from_url net url s) = Some s'
     \<and> events s' = events (budget_pause s) @ [HttpGet url]
     \<and> request_log s' = request_log s @ log_line ''PubMed'' (request_counter (budget_pause s) + 1) url
     \<and> request_counter s' = request_counter (budget_pause s)
         + (case net (events (budget_pause s)) url of
              NoResponse \<Rightarrow> 0
            | Response status body \<Rightarrow> 1)
     \<and> max_requests_per_day s' = max_requests_per_day s"
  by (simp add: pubmed_get_data_from_url_def http_get_def Let_def budget_pause_log
      budget_pause_max split: http.splits payload.splits)

lemma ieee_accounting:
  "\<exists>s'. outcome_state (ieee_call_api net q st s) = Some s'
     \<and> request_log s' = request_log s @ log_line ''IEEE'' (request_counter s + 1) (ieee_url s q st)
     \<and> request_counter s' = request_counter s
         + (case net (events s @ [Sleep 1]) (ieee_url s q st) of
              NoResponse \<Rightarrow> 0
            | Response status body \<Rightarrow>
                if 200 \<le> status \<and> status < 300 \<and> body \<noteq> Undecodable then 1 else 0)"
  using ieee_call_api_total [of net q st s] by blast

lemma springer_accounting:
  "\<exists>s'. outcome_state (springer_get_data_from_url net url s) = Some s'
     \<and> request_log s' = request_log s @ log_line ''Springer'' (request_counter (budget_pause s) + 1) url
     \<and> request_counter s' = request_counter (budget_pause s)
         + (case net (events (budget_pause s)) url of
              Response status (Json j) \<Rightarrow> 1
            | _ \<Rightarrow> 0)"
  using springer_get_total [of net url s] by blast

lemma scopus_accounting:
  "\<exists>s'. outcome_state (scopus_get_data_from_url net url s) = Some s'
     \<and> request_log s' = request_log s @ log_line ''Scopus'' (request_counter (budget_pause s) + 1) url
     \<and> request_counter s' = request_counter (budget_pause s)
         + (case net (events (budget_pause s)) url of
              Response status (Json j) \<Rightarrow> if status = 200 then 1 else 0
            | _ \<Rightarrow> 0)"
  using scopus_get_total [of net url s] by blast

lemma pubmed_accounting:
  "\<exists>s'. outcome_state (pubmed_get_data_from_url net url s) = Some s'
     \<and> request_log s' = request_log s @ log_line ''PubMed'' (request_counter (budget_pause s) + 1) url
     \<and> request_counter s' = request_counter (budget_pause s)
         + (case net (events (budget_pause s)) url of
              NoResponse \<Rightarrow> 0
            | Response status body \<Rightarrow> 1)"
  using pubmed_get_total [of net url s] by blast

lemma py_str_small: "py_str 1 = ''1''" "py_str 2 = ''2''" "py_str 3 = ''3''" "py_str 4 = ''4''"
  by (simp_all add: py_str_def digits.simps digit_char_def)

text \<open>
  C3 (as amended). Every connector call ends, by returning or by raising, and has appended
  exactly one line \<open><Backend> API request #<n>: <url>\<close> to the request log, where \<open>n\<close> is
  one above the request counter at the time of the request: for Springer, Scopus and PubMed
  that is the counter after the budget guard, which sets a counter that has reached
  \<open>max_requests_per_day\<close> to 0; IEEE has no guard. From that value the counter is
  incremented exactly once when the answer was read (IEEE: a status in 200..299 and a body
  that is UTF-8 text; Springer: a body that parses as JSON; Scopus: status 200 and a body
  that parses as JSON; PubMed: any answer), and is left there otherwise (no answer, or for
  Scopus a status other than 200).
\<close>

theorem request_accounting:
  "(\<exists>s'. outcome_state (ieee_call_api net q st s) = Some s'
     \<and> request_log s' = request_log s @ log_line ''IEEE'' (request_counter s + 1) (ieee_url s q st)
     \<and> request_counter s' = request_counter s
         + (case net (events s @ [Sleep 1]) (ieee_url s q st) of
              NoResponse \<Rightarrow> 0
            | Response status body \<Rightarrow>
                if 200 \<le> status \<and> status < 300 \<and> body \<noteq> Undecodable then 1 else 0))
   \<and> (\<exists>s'. outcome_state (springer_get_data_from_url net url s) = Some s'
     \<and> request_log s' = request_log s @ log_line ''Springer'' (request_counter (budget_pause s) + 1) url
     \<and> request_counter s' = request_counter (budget_pause s)
         + (case net (events (budget_pause s)) url of
              Response status (Json j) \<Rightarrow> 1
            | _ \<Rightarrow> 0))
   \<and> (\<exists>s'. outcome_state (scopus_get_data_from_url net url s) = Some s'
     \<and> request_log s' = request_log s @ log_line ''Scopus'' (request_counter (budget_pause s) + 1) url
     \<and> request_counter s' = request_counter (budget_pause s)
         + (case net (events (budget_pause s)) url of
              Response status (Json j) \<Rightarrow> if status = 200 then 1 else 0
            | _ \<Rightarrow> 0))
   \<and> (\<exists>s'. outcome_state (pubmed_get_data_from_url net url s) = Some s'
     \<and> request_log s' = request_log s @ log_line ''PubMed'' (request_counter (budget_pause s) + 1) url
     \<and> request_counter s' = request_counter (budget_pause s)
         + (case net (events (budget_pause s)) url of
              NoResponse \<Rightarrow> 0
            | Response status body \<Rightarrow> 1))
   \<and> request_counter (budget_pause s) =
        (if request_counter s \<ge> max_requests_per_day s then 0 else request_counter s)
   \<and> events (budget_pause s) = events s
        @ (if request_counter s \<ge> max_requests_per_day s then [Sleep 86400] else [])"
  using ieee_accounting [of net q st s] springer_accounting [of net url s]
    scopus_accounting [of net url s] pubmed_accounting [of net url s]
    budget_pause_counter [of s] budget_pause_events [of s]
  by blast

text \<open>The fourth request of a Springer instance, far from its budget.\<close>

theorem request_accounting_witness:
  "map_option request_counter (outcome_state (springer_get_data_from_url answers_empty ''u'' midrun)) = Some 4
   \<and> map_option request_log (outcome_state (springer_get_data_from_url answers_empty ''u'' midrun))
      = Some (''three lines'' @ ''Springer API request #4: u'' @ [CHR 0x0A])"
proof -
  have b: "request_counter (budget_pause midrun) = 3" "request_log midrun = ''three lines''"
    by (simp_all add: budget_pause_def midrun_def new_instance_def)
  from request_accounting [of answers_empty "[]" 1 midrun "''u''"]
  obtain s' where s': "outcome_state (springer_get_data_from_url answers_empty ''u'' midrun) = Some s'"
    and l: "request_log s' = request_log midrun @ log_line ''Springer'' (request_counter (budget_pause midrun) + 1) ''u''"
    and c: "request_counter s' = request_counter (budget_pause midrun)
         + (case answers_empty (events (budget_pause midrun)) ''u'' of
              Response status (Json j) \<Rightarrow> 1
            | _ \<Rightarrow> 0)"
    by blast
  from c have "request_counter s' = 4" by (simp add: b answers_empty_def)
  moreover from l have "request_log s' = ''three lines'' @ ''Springer API request #4: u'' @ [CHR 0x0A]"
    by (simp add: b log_line_def py_str_small)
  ultimately show ?thesis using s' by simp
qed

text \<open>
  C3 as stated fails in three ways. A new Springer instance with a budget of 2 makes three
  requests: the third is logged as request #1 and leaves the counter at 1, with three lines
  in the log. A new Scopus instance makes one request that is answered with status 404: one
  line is logged and the counter stays 0. A new Springer instance makes one request that
  gets no answer: one line is logged and the counter stays 0.
\<close>

theorem counter_not_lines_counterexample:
  "map_option request_counter
      (outcome_state (three_requests springer_get_data_from_url answers_empty budget2)) = Some 1
   \<and> map_option request_log
      (outcome_state (three_requests springer_get_data_from_url answers_empty budget2))
      = Some (''Springer API request #1: u1'' @ [CHR 0x0A]
            @ ''Springer API request #2: u2'' @ [CHR 0x0A]
            @ ''Springer API request #1: u3'' @ [CHR 0x0A])
   \<and> map_option request_counter
      (outcome_state (scopus_get_data_from_url answers_404_first ''u1'' (new_instance ''key'' ''tok'' None)))
      = Some 0
   \<and> map_option request_log
      (outcome_state (scopus_get_data_from_url answers_404_first ''u1'' (new_instance ''key'' ''tok'' None)))
      = Some (''Scopus API request #1: u1'' @ [CHR 0x0A])
   \<and> map_option request_counter
      (outcome_state (springer_get_data_from_url unreachable ''u1'' (new_instance ''key'' [] None)))
      = Some 0
   \<and> map_option request_log
      (outcome_state (springer_get_data_from_url unreachable ''u1'' (new_instance ''key'' [] None)))
      = Some (''Springer API request #1: u1'' @ [CHR 0x0A])"
  by (simp add: three_requests_def springer_get_data_from_url_def scopus_get_data_from_url_def
      http_get_def budget2_def new_instance_def answers_empty_def answers_404_first_def
      unreachable_def budget_pause_def sleep_def log_line_def py_str_small)

lemma budget_pause_day:
  "events (budget_pause s) = events s
     @ (if request_counter s \<ge> max_requests_per_day s then [Sleep (24 * 60 * 60)] else [])"
  by (simp add: budget_pause_def sleep_def)

text \<open>What a call that returns has done.\<close>

lemma springer_get_Done:
  assumes "springer_get_data_from_url net url s = Done j s'"
  shows "request_counter s' = request_counter (budget_pause s) + 1
      \<and> events s' = events (budget_pause s) @ [HttpGet url]
      \<and> max_requests_per_day s' = max_requests_per_day s"
  using assms
  by (simp add: springer_get_data_from_url_def http_get_def Let_def
      split: http.splits payload.splits) (auto simp: budget_pause_max)

lemma scopus_get_Done:
  assumes "scopus_get_data_from_url net url s = Done j s'"
    and "net (events (budget_pause s)) url = Response 200 body"
  shows "request_counter s' = request_counter (budget_pause s) + 1
      \<and> events s' = events (budget_pause s) @ [HttpGet url]
      \<and> max_requests_per_day s' = max_requests_per_day s"
  using assms
  by (simp add: scopus_get_data_from_url_def http_get_def Let_def
      split: http.splits payload.splits) (auto simp: budget_pause_max)

lemma pubmed_get_Done:
  assumes "pubmed_get_data_from_url net url s = Done p s'"
  shows "request_counter s' = request_counter (budget_pause s) + 1
      \<and> events s' = events (budget_pause s) @ [HttpGet url]
      \<and> max_requests_per_day s' = max_requests_per_day s"
  using assms
  by (simp add: pubmed_get_data_from_url_def http_get_def Let_def
      split: http.splits payload.splits) (auto simp: budget_pause_max)

lemma springer_guard:
  "\<exists>s'. outcome_state (springer_get_data_from_url net url s) = Some s'
     \<and> events s' = events s
          @ (if request_counter s \<ge> max_requests_per_day s then [Sleep (24 * 60 * 60)] else [])
          @ [HttpGet url]
     \<and> request_log s' = request_log s @ log_line ''Springer''
            ((if request_counter s \<ge> max_requests_per_day s then 0 else request_counter s) + 1) url"
proof -
  from springer_get_total [of net url s] obtain s' where
    o: "outcome_state (springer_get_data_from_url net url s) = Some s'"
    and e: "events s' = events (budget_pause s) @ [HttpGet url]"
    and l: "request_log s' = request_log s @ log_line ''Springer'' (request_counter (budget_pause s) + 1) url"
    by blast
  have "events s' = events s
          @ (if request_counter s \<ge> max_requests_per_day s then [Sleep (24 * 60 * 60)] else [])
          @ [HttpGet url]"
    unfolding e budget_pause_day by (simp only: append_assoc)
  moreover have "request_log s' = request_log s @ log_line ''Springer''
            ((if request_counter s \<ge> max_requests_per_day s then 0 else request_counter s) + 1) url"
    using l unfolding budget_pause_counter .
  ultimately show ?thesis using o by blast
qed

lemma scopus_guard:
  "\<exists>s'. outcome_state (scopus_get_data_from_url net url s) = Some s'
     \<and> events s' = events s
          @ (if request_counter s \<ge> max_requests_per_day s then [Sleep (24 * 60 * 60)] else [])
          @ [HttpGet url]
     \<and> request_log s' = request_log s @ log_line ''Scopus''
            ((if request_counter s \<ge> max_requests_per_day s then 0 else request_counter s) + 1) url"
proof -
  from scopus_get_total [of net url s] obtain s' where
    o: "outcome_state (scopus_get_data_from_url net url s) = Some s'"
    and e: "events s' = events (budget_pause s) @ [HttpGet url]"
    and l: "request_log s' = request_log s @ log_line ''Scopus'' (request_counter (budget_pause s) + 1) url"
    by blast
  have "events s' = events s
          @ (if request_counter s \<ge> max_requests_per_day s then [Sleep (24 * 60 * 60)] else [])
          @ [HttpGet url]"
    unfolding e budget_pause_day by (simp only: append_assoc)
  moreover have "request_log s' = request_log s @ log_line ''Scopus''
            ((if request_counter s \<ge> max_requests_per_day s then 0 else request_counter s) + 1) url"
    using l unfolding budget_pause_counter .
  ultimately show ?thesis using o by blast
qed

lemma pubmed_guard:
  "\<exists>s'. outcome_state (pubmed_get_data_from_url net url s) = Some s'
     \<and> events s' = events s
          @ (if request_counter s \<ge> max_requests_per_day s then [Sleep (24 * 60 * 60)] else [])
          @ [HttpGet url]
     \<and> request_log s' = request_log s @ log_line ''PubMed''
            ((if request_counter s \<ge> max_requests_per_day s then 0 else request_counter s) + 1) url"
proof -
  from pubmed_get_total [of net url s] obtain s' where
    o: "outcome_state (pubmed_get_data_from_url net url s) = Some s'"
    and e: "events s' = events (budget_pause s) @ [HttpGet url]"
    and l: "request_log s' = request_log s @ log_line ''PubMed'' (request_counter (budget_pause s) + 1) url"
    by blast
  have "events s' = events s
          @ (if request_counter s \<ge> max_requests_per_day s then [Sleep (24 * 60 * 60)] else [])
          @ [HttpGet url]"
    unfolding e budget_pause_day by (simp only: append_assoc)
  moreover have "request_log s' = request_log s @ log_line ''PubMed''
            ((if request_counter s \<ge> max_requests_per_day s then 0 else request_counter s) + 1) url"
    using l unfolding budget_pause_counter .
  ultimately show ?thesis using o by blast
qed

lemma ieee_no_guard:
  "\<exists>s'. outcome_state (ieee_call_api net q st s) = Some s'
     \<and> events s' = events s @ [Sleep 1, HttpGet (ieee_url s q st)]
     \<and> request_log s' = request_log s @ log_line ''IEEE'' (request_counter s + 1) (ieee_url s q st)"
  using ieee_call_api_total [of net q st s] by blast

lemma springer_budget_two:
  assumes m: "max_requests_per_day s = 2" and c: "request_counter s = 0"
    and 1: "springer_get_data_from_url net u1 s = Done r1 s1"
    and 2: "springer_get_data_from_url net u2 s1 = Done r2 s2"
  shows "\<exists>s3. outcome_state (springer_get_data_from_url net u3 s2) = Some s3
     \<and> events s3 = events s @ [HttpGet u1, HttpGet u2, Sleep (24 * 60 * 60), HttpGet u3]
     \<and> request_counter s2 = 2
     \<and> request_counter (budget_pause s2) = 0
     \<and> request_log s3 = request_log s2 @ log_line ''Springer'' 1 u3"
proof -
  have p0: "budget_pause s = s" using m c by (simp add: budget_pause_def)
  from springer_get_Done [OF 1] p0
  have c1: "request_counter s1 = 1" and e1: "events s1 = events s @ [HttpGet u1]"
    and m1: "max_requests_per_day s1 = 2"
    using c m by simp_all
  have p1: "budget_pause s1 = s1" using m1 c1 by (simp add: budget_pause_def)
  from springer_get_Done [OF 2] p1
  have c2: "request_counter s2 = 2" and e2: "events s2 = events s1 @ [HttpGet u2]"
    and m2: "max_requests_per_day s2 = 2"
    using c1 m1 by simp_all
  have e: "events (budget_pause s2) = events s2 @ [Sleep (24 * 60 * 60)]"
    and z: "request_counter (budget_pause s2) = 0"
    using m2 c2 by (simp_all add: budget_pause_def sleep_def)
  from springer_get_total [of net u3 s2] obtain s3 where
    o: "outcome_state (springer_get_data_from_url net u3 s2) = Some s3"
    and e3: "events s3 = events (budget_pause s2) @ [HttpGet u3]"
    and l3: "request_log s3 = request_log s2 @ log_line ''Springer'' (request_counter (budget_pause s2) + 1) u3"
    by blast
  have "events s3 = events s @ [HttpGet u1, HttpGet u2, Sleep (24 * 60 * 60), HttpGet u3]"
    by (simp add: e3 e e2 e1)
  moreover have "request_log s3 = request_log s2 @ log_line ''Springer'' 1 u3"
    by (simp add: l3 z)
  ultimately show ?thesis using o c2 z by blast
qed

lemma scopus_budget_two:
  assumes m: "max_requests_per_day s = 2" and c: "request_counter s = 0"
    and 1: "scopus_get_data_from_url net u1 s = Done r1 s1"
    and 2: "scopus_get_data_from_url net u2 s1 = Done r2 s2"
    and a1: "net (events s) u1 = Response 200 b1" and a2: "net (events s1) u2 = Response 200 b2"
  shows "\<exists>s3. outcome_state (scopus_get_data_from_url net u3 s2) = Some s3
     \<and> events s3 = events s @ [HttpGet u1, HttpGet u2, Sleep (24 * 60 * 60), HttpGet u3]
     \<and> request_counter s2 = 2
     \<and> request_counter (budget_pause s2) = 0
     \<and> request_log s3 = request_log s2 @ log_line ''Scopus'' 1 u3"
proof -
  have p0: "budget_pause s = s" using m c by (simp add: budget_pause_def)
  from scopus_get_Done [OF 1] a1 p0
  have c1: "request_counter s1 = 1" and e1: "events s1 = events s @ [HttpGet u1]"
    and m1: "max_requests_per_day s1 = 2"
    using c m by simp_all
  have p1: "budget_pause s1 = s1" using m1 c1 by (simp add: budget_pause_def)
  from scopus_get_Done [OF 2] a2 p1
  have c2: "request_counter s2 = 2" and e2: "events s2 = events s1 @ [HttpGet u2]"
    and m2: "max_requests_per_day s2 = 2"
    using c1 m1 by simp_all
  have e: "events (budget_pause s2) = events s2 @ [Sleep (24 * 60 * 60)]"
    and z: "request_counter (budget_pause s2) = 0"
    using m2 c2 by (simp_all add: budget_pause_def sleep_def)
  from scopus_get_total [of net u3 s2] obtain s3 where
    o: "outcome_state (scopus_get_data_from_url net u3 s2) = Some s3"
    and e3: "events s3 = events (budget_pause s2) @ [HttpGet u3]"
    and l3: "request_log s3 = request_log s2 @ log_line ''Scopus'' (request_counter (budget_pause s2) + 1) u3"
    by blast
  have "events s3 = events s @ [HttpGet u1, HttpGet u2, Sleep (24 * 60 * 60), HttpGet u3]"
    by (simp add: e3 e e2 e1)
  moreover have "request_log s3 = request_log s2 @ log_line ''Scopus'' 1 u3"
    by (simp add: l3 z)
  ultimately show ?thesis using o c2 z by blast
qed

lemma pubmed_budget_two:
  assumes m: "max_requests_per_day s = 2" and c: "request_counter s = 0"
    and 1: "pubmed_get_data_from_url net u1 s = Done r1 s1"
    and 2: "pubmed_get_data_from_url net u2 s1 = Done r2 s2"
  shows "\<exists>s3. outcome_state (pubmed_get_data_from_url net u3 s2) = Some s3
     \<and> events s3 = events s @ [HttpGet u1, HttpGet u2, Sleep (24 * 60 * 60), HttpGet u3]
     \<and> request_counter s2 = 2
     \<and> request_counter (budget_pause s2) = 0
     \<and> request_log s3 = request_log s2 @ log_line ''PubMed'' 1 u3"
proof -
  have p0: "budget_pause s = s" using m c by (simp add: budget_pause_def)
  from pubmed_get_Done [OF 1] p0
  have c1: "request_counter s1 = 1" and e1: "events s1 = events s @ [HttpGet u1]"
    and m1: "max_requests_per_day s1 = 2"
    using c m by simp_all
  have p1: "budget_pause s1 = s1" using m1 c1 by (simp add: budget_pause_def)
  from pubmed_get_Done [OF 2] p1
  have c2: "request_counter s2 = 2" and e2: "events s2 = events s1 @ [HttpGet u2]"
    and m2: "max_requests_per_day s2 = 2"
    using c1 m1 by simp_all
  have e: "events (budget_pause s2) = events s2 @ [Sleep (24 * 60 * 60)]"
    and z: "request_counter (budget_pause s2) = 0"
    using m2 c2 by (simp_all add: budget_pause_def sleep_def)
  from pubmed_get_total [of net u3 s2] obtain s3 where
    o: "outcome_state (pubmed_get_data_from_url net u3 s2) = Some s3"
    and e3: "events s3 = events (budget_pause s2) @ [HttpGet u3]"
    and l3: "request_log s3 = request_log s2 @ log_line ''PubMed'' (request_counter (budget_pause s2) + 1) u3"
    by blast
  have "events s3 = events s @ [HttpGet u1, HttpGet u2, Sleep (24 * 60 * 60), HttpGet u3]"
    by (simp add: e3 e e2 e1)
  moreover have "request_log s3 = request_log s2 @ log_line ''PubMed'' 1 u3"
    by (simp add: l3 z)
  ultimately show ?thesis using o c2 z by blast
qed

text \<open>
  C5 (as amended). A new instance has a daily budget of 500. Every network step of the
  Springer, Scopus and PubMed connectors goes through \<open>get_data_from_url\<close>, which ends
  whatever the backend answers and first compares the request counter with the budget: when
  the budget is reached it sleeps 24 hours (one \<open>Sleep\<close> of 86400 seconds before the
  request) and the request is then logged as number 1, the counter having been reset to
  zero; otherwise no pause happens. \<open>IEEEAPI.call_api\<close> ends too, only sleeps one second
  and logs the request with the counter it found, whatever that counter is. With a budget
  of 2 and a counter of 0, two requests that were counted (two calls that returned; for
  Scopus, that were answered with status 200) bring the counter to 2, and the third call
  pauses exactly once, after the second request and before the third, with the counter at
  0 when the third request is made. A Scopus request answered with another status is not
  counted and does not bring the pause nearer.
\<close>

theorem budget_check:
  "max_requests_per_day (new_instance key tok file) = 500
   \<and> (\<exists>s'. outcome_state (springer_get_data_from_url net url s) = Some s'
     \<and> events s' = events s
          @ (if request_counter s \<ge> max_requests_per_day s then [Sleep (24 * 60 * 60)] else [])
          @ [HttpGet url]
     \<and> request_log s' = request_log s @ log_line ''Springer''
            ((if request_counter s \<ge> max_requests_per_day s then 0 else request_counter s) + 1) url)
   \<and> (\<exists>s'. outcome_state (scopus_get_data_from_url net url s) = Some s'
     \<and> events s' = events s
          @ (if request_counter s \<ge> max_requests_per_day s then [Sleep (24 * 60 * 60)] else [])
          @ [HttpGet url]
     \<and> request_log s' = request_log s @ log_line ''Scopus''
            ((if request_counter s \<ge> max_requests_per_day s then 0 else request_counter s) + 1) url)
   \<and> (\<exists>s'. outcome_state (pubmed_get_data_from_url net url s) = Some s'
     \<and> events s' = events s
          @ (if request_counter s \<ge> max_requests_per_day s then [Sleep (24 * 60 * 60)] else [])
          @ [HttpGet url]
     \<and> request_log s' = request_log s @ log_line ''PubMed''
            ((if request_counter s \<ge> max_requests_per_day s then 0 else request_counter s) + 1) url)
   \<and> (\<exists>s'. outcome_state (ieee_call_api net q st s) = Some s'
     \<and> events s' = events s @ [Sleep 1, HttpGet (ieee_url s q st)]
     \<and> request_log s' = request_log s @ log_line ''IEEE'' (request_counter s + 1) (ieee_url s q st))
   \<and> (max_requests_per_day s = 2 \<and> request_counter s = 0
        \<and> springer_get_data_from_url net u1 s = Done j1 sp1
        \<and> springer_get_data_from_url net u2 sp1 = Done j2 sp2 \<longrightarrow>
        (\<exists>s3. outcome_state (springer_get_data_from_url net u3 sp2) = Some s3
          \<and> events s3 = events s @ [HttpGet u1, HttpGet u2, Sleep (24 * 60 * 60), HttpGet u3]
          \<and> request_counter sp2 = 2
          \<and> request_counter (budget_pause sp2) = 0
          \<and> request_log s3 = request_log sp2 @ log_line ''Springer'' 1 u3))
   \<and> (max_requests_per_day s = 2 \<and> request_counter s = 0
        \<and> scopus_get_data_from_url net u1 s = Done k1 sc1
        \<and> scopus_get_data_from_url net u2 sc1 = Done k2 sc2
        \<and> net (events s) u1 = Response 200 body1 \<and> net (events sc1) u2 = Response 200 body2 \<longrightarrow>
        (\<exists>s3. outcome_state (scopus_get_data_from_url net u3 sc2) = Some s3
          \<and> events s3 = events s @ [HttpGet u1, HttpGet u2, Sleep (24 * 60 * 60), HttpGet u3]
          \<and> request_counter sc2 = 2
          \<and> request_counter (budget_pause sc2) = 0
          \<and> request_log s3 = request_log sc2 @ log_line ''Scopus'' 1 u3))
   \<and> (max_requests_per_day s = 2 \<and> request_counter s = 0
        \<and> pubmed_get_data_from_url net u1 s = Done p1 pm1
        \<and> pubmed_get_data_from_url net u2 pm1 = Done p2 pm2 \<longrightarrow>
        (\<exists>s3. outcome_state (pubmed_get_data_from_url net u3 pm2) = Some s3
          \<and> events s3 = events s @ [HttpGet u1, HttpGet u2, Sleep (24 * 60 * 60), HttpGet u3]
          \<and> request_counter pm2 = 2
          \<and> request_counter (budget_pause pm2) = 0
          \<and> request_log s3 = request_log pm2 @ log_line ''PubMed'' 1 u3))"
proof (intro conjI impI)
  show "max_requests_per_day (new_instance key tok file) = 500"
    by (simp add: new_instance_def)
qed (use springer_guard [of net url s] scopus_guard [of net url s] pubmed_guard [of net url s]
      ieee_no_guard [of net q st s]
      springer_budget_two [of s net u1 j1 sp1 u2 j2 sp2 u3]
      scopus_budget_two [of s net u1 k1 sc1 u2 k2 sc2 body1 body2 u3]
      pubmed_budget_two [of s net u1 p1 pm1 u2 p2 pm2 u3] in \<open>blast+\<close>)

text \<open>Three requests by a new instance whose budget is 2, for each of the three backends.\<close>

theorem budget_check_witness:
  "map_option events (outcome_state (three_requests springer_get_data_from_url answers_empty budget2))
     = Some [HttpGet ''u1'', HttpGet ''u2'', Sleep 86400, HttpGet ''u3'']
   \<and> map_option events (outcome_state (three_requests scopus_get_data_from_url answers_empty budget2))
     = Some [HttpGet ''u1'', HttpGet ''u2'', Sleep 86400, HttpGet ''u3'']
   \<and> map_option events (outcome_state (three_requests pubmed_get_data_from_url answers_empty budget2))
     = Some [HttpGet ''u1'', HttpGet ''u2'', Sleep 86400, HttpGet ''u3'']"
proof -
  define sp1 where "sp1 = the (outcome_state (springer_get_data_from_url answers_empty ''u1'' budget2))"
  define sp2 where "sp2 = the (outcome_state (springer_get_data_from_url answers_empty ''u2'' sp1))"
  define sc1 where "sc1 = the (outcome_state (scopus_get_data_from_url answers_empty ''u1'' budget2))"
  define sc2 where "sc2 = the (outcome_state (scopus_get_data_from_url answers_empty ''u2'' sc1))"
  define pm1 where "pm1 = the (outcome_state (pubmed_get_data_from_url answers_empty ''u1'' budget2))"
  define pm2 where "pm2 = the (outcome_state (pubmed_get_data_from_url answers_empty ''u2'' pm1))"
  have sp: "springer_get_data_from_url answers_empty ''u1'' budget2 = Done (JDict []) sp1"
    "springer_get_data_from_url answers_empty ''u2'' sp1 = Done (JDict []) sp2"
    by (simp_all add: sp1_def sp2_def springer_get_data_from_url_def http_get_def answers_empty_def Let_def)
  have sc: "scopus_get_data_from_url answers_empty ''u1'' budget2 = Done (JDict []) sc1"
    "scopus_get_data_from_url answers_empty ''u2'' sc1 = Done (JDict []) sc2"
    by (simp_all add: sc1_def sc2_def scopus_get_data_from_url_def http_get_def answers_empty_def Let_def)
  have pm: "pubmed_get_data_from_url answers_empty ''u1'' budget2 = Done (Json (JDict [])) pm1"
    "pubmed_get_data_from_url answers_empty ''u2'' pm1 = Done (Json (JDict [])) pm2"
    by (simp_all add: pm1_def pm2_def pubmed_get_data_from_url_def http_get_def answers_empty_def Let_def)
  have b: "max_requests_per_day budget2 = 2" "request_counter budget2 = 0" "events budget2 = []"
    by (simp_all add: budget2_def new_instance_def)
  have n: "answers_empty (events budget2) ''u1'' = Response 200 (Json (JDict []))"
    "answers_empty (events sc1) ''u2'' = Response 200 (Json (JDict []))"
    by (simp_all add: answers_empty_def)
  note all = budget_check [where net = answers_empty and s = budget2
      and ?u1.0 = "''u1''" and ?u2.0 = "''u2''" and ?u3.0 = "''u3''"
      and ?j1.0 = "JDict []" and ?j2.0 = "JDict []" and ?sp1.0 = sp1 and ?sp2.0 = sp2
      and ?k1.0 = "JDict []" and ?k2.0 = "JDict []" and ?sc1.0 = sc1 and ?sc2.0 = sc2
      and ?body1.0 = "Json (JDict [])" and ?body2.0 = "Json (JDict [])"
      and ?p1.0 = "Json (JDict [])" and ?p2.0 = "Json (JDict [])" and ?pm1.0 = pm1 and ?pm2.0 = pm2]
  from all sp b obtain sp3 where
    "outcome_state (springer_get_data_from_url answers_empty ''u3'' sp2) = Some sp3"
    "events sp3 = events budget2 @ [HttpGet ''u1'', HttpGet ''u2'', Sleep (24 * 60 * 60), HttpGet ''u3'']"
    by blast
  then have 1: "map_option events (outcome_state (three_requests springer_get_data_from_url answers_empty budget2))
     = Some [HttpGet ''u1'', HttpGet ''u2'', Sleep 86400, HttpGet ''u3'']"
    using sp b by (simp add: three_requests_def)
  from all sc b n obtain sc3 where
    "outcome_state (scopus_get_data_from_url answers_empty ''u3'' sc2) = Some sc3"
    "events sc3 = events budget2 @ [HttpGet ''u1'', HttpGet ''u2'', Sleep (24 * 60 * 60), HttpGet ''u3'']"
    by blast
  then have 2: "map_option events (outcome_state (three_requests scopus_get_data_from_url answers_empty budget2))
     = Some [HttpGet ''u1'', HttpGet ''u2'', Sleep 86400, HttpGet ''u3'']"
    using sc b by (simp add: three_requests_def)
  from all pm b obtain pm3 where
    "outcome_state (pubmed_get_data_from_url answers_empty ''u3'' pm2) = Some pm3"
    "events pm3 = events budget2 @ [HttpGet ''u1'', HttpGet ''u2'', Sleep (24 * 60 * 60), HttpGet ''u3'']"
    by blast
  then have 3: "map_option events (outcome_state (three_requests pubmed_get_data_from_url answers_empty budget2))
     = Some [HttpGet ''u1'', HttpGet ''u2'', Sleep 86400, HttpGet ''u3'']"
    using pm b by (simp add: three_requests_def)
  from 1 2 3 show ?thesis by blast
qed

text \<open>
  C5 as stated fails for Scopus: a new instance with a budget of 2 whose first request is
  answered with status 404 makes its three requests without any pause, and ends with the
  counter at 2.
\<close>

theorem scopus_uncounted_counterexample:
  "map_option events
      (outcome_state (three_requests scopus_get_data_from_url answers_404_first budget2))
     = Some [HttpGet ''u1'', HttpGet ''u2'', HttpGet ''u3'']
   \<and> map_option request_counter
      (outcome_state (three_requests scopus_get_data_from_url answers_404_first budget2))
     = Some 2"
  by (simp add: three_requests_def scopus_get_data_from_url_def http_get_def budget2_def
      new_instance_def answers_404_first_def budget_pause_def sleep_def)

section \<open>Pagination of the IEEE connector\<close>

lemma ieee_call_api_Done:
  assumes "ieee_call_api net q st s = Done j s'"
  shows "events s' = events s @ [Sleep 1, HttpGet (ieee_url s q st)]"
  using assms
  by (simp add: ieee_call_api_def http_get_def sleep_def Let_def ieee_url_def
      split: http.splits payload.splits if_splits) auto


lemma requested_append: "requested (xs @ ys) = requested xs @ requested ys"
  by (induction xs rule: requested.induct) auto

lemma ieee_call_api_key:
  "ieee_call_api net q st s = Done j s' \<Longrightarrow> api_key s' = api_key s"
  by (simp add: ieee_call_api_def http_get_def sleep_def Let_def
      split: http.splits payload.splits if_splits) auto

lemma ieee_page_stop:
  "ieee_page r st (JInt T) recs = Inr (t, rs, stop) \<Longrightarrow> T \<noteq> 0 \<Longrightarrow>
   t = JInt T \<and> stop = (T \<le> int st + 24)"
  by (auto simp: ieee_page_def bindE_eq_Inr)

lemma ieee_page_first:
  "ieee_page r st (JInt 0) recs = Inr (t, rs, stop) \<Longrightarrow>
   py_get r ''total_records'' (JInt 0) = Inr (JInt T) \<Longrightarrow>
   t = JInt T \<and> stop = (T \<le> int st + 24)"
  by (auto simp: ieee_page_def bindE_eq_Inr)

lemma pages_count_stop: "T \<le> int st + 24 \<Longrightarrow> max 1 (nat ((T - int st + 25) div 25)) = 1"
  by (simp add: max_def) linarith

lemma pages_count_step:
  "\<not> T \<le> int st + 24 \<Longrightarrow>
   max 1 (nat ((T - int st + 25) div 25)) = Suc (max 1 (nat ((T - int (st + 25) + 25) div 25)))"
proof -
  assume a: "\<not> T \<le> int st + 24"
  have 1: "(T - int st + 25) div 25 = (T - int st) div 25 + 1" by simp
  have 2: "(T - int st) div 25 \<ge> 1" using a by linarith
  have 3: "nat ((T - int st) div 25 + 1) = Suc (nat ((T - int st) div 25))"
    using 2 by (simp add: nat_add_distrib)
  have 4: "1 \<le> nat ((T - int st) div 25)" using 2 by simp
  show ?thesis using 1 3 4 by (simp add: max_def)
qed

lemma ieee_pages_requests:
  "ieee_pages net q st (JInt T) recs s = Done recs' s' \<Longrightarrow> T \<noteq> 0 \<Longrightarrow>
   requested (events s') = requested (events s)
     @ map (\<lambda>k. ieee_url s q (st + 25 * k)) [0..<max 1 (nat ((T - int st + 25) div 25))]"
proof (induction net q st "JInt T" recs s arbitrary: recs' s' rule: ieee_pages.induct)
  case (1 net q st recs s)
  from "1.prems"(1) obtain r s1 where call: "ieee_call_api net q st s = Done r s1"
    by (subst (asm) ieee_pages.simps) (auto split: outcome.splits)
  from "1.prems"(1) call obtain t rs stop where page: "ieee_page r st (JInt T) recs = Inr (t, rs, stop)"
    by (subst (asm) ieee_pages.simps) (auto split: sum.splits)
  from ieee_page_stop [OF page "1.prems"(2)] have t: "t = JInt T" and stop: "stop = (T \<le> int st + 24)"
    by auto
  have ev: "requested (events s1) = requested (events s) @ [ieee_url s q st]"
    using ieee_call_api_Done [OF call] by (simp add: requested_append)
  have key: "ieee_url s1 q = ieee_url s q"
    using ieee_call_api_key [OF call] by (auto simp: ieee_url_def fun_eq_iff)
  show ?case
  proof (cases stop)
    case True
    then have "s' = s1" using "1.prems"(1) call page
      by (subst (asm) ieee_pages.simps) simp
    then show ?thesis using ev True stop by (simp add: pages_count_stop)
  next
    case False
    then have rec: "ieee_pages net q (st + 25) (JInt T) rs s1 = Done recs' s'"
      using "1.prems"(1) call page t by (subst (asm) ieee_pages.simps) simp
    have "requested (events s') = requested (events s1)
       @ map (\<lambda>k. ieee_url s1 q (st + 25 + 25 * k)) [0..<max 1 (nat ((T - int (st + 25) + 25) div 25))]"
      using "1.hyps" [OF call page [unfolded t] refl refl _ rec "1.prems"(2)] False by simp
    moreover have "max 1 (nat ((T - int st + 25) div 25))
       = Suc (max 1 (nat ((T - int (st + 25) + 25) div 25)))"
      using False stop by (intro pages_count_step) simp
    ultimately show ?thesis
      using ev key by (simp add: upt_rec [of 0] map_Suc_upt [symmetric] del: upt_Suc)
        (simp add: comp_def add.assoc)
  qed
qed


lemma pages_bound:
  fixes T :: int
  defines "n \<equiv> max 1 (nat ((T + 24) div 25))"
  shows "T \<le> int (1 + 25 * (n - 1)) + 24" and "\<forall>k. Suc k < n \<longrightarrow> int (1 + 25 * k) + 24 < T"
proof -
  have d: "25 * ((T + 24) div 25) \<ge> T" by linarith
  show "T \<le> int (1 + 25 * (n - 1)) + 24"
  proof (cases "1 \<le> (T + 24) div 25")
    case True
    then have "int n = (T + 24) div 25" by (simp add: n_def max_def)
    then show ?thesis using d True by (simp add: of_nat_diff)
  next
    case False
    then have "n = 1" by (simp add: n_def max_def)
    moreover have "T \<le> 25" using False by linarith
    ultimately show ?thesis by simp
  qed
  show "\<forall>k. Suc k < n \<longrightarrow> int (1 + 25 * k) + 24 < T"
  proof (intro allI impI)
    fix k assume k: "Suc k < n"
    then have "int n = (T + 24) div 25" by (simp add: n_def max_def split: if_splits)
    then have "int k + 2 \<le> (T + 24) div 25" using k by linarith
    then show "int (1 + 25 * k) + 24 < T" by simp
  qed
qed

lemma ieee_pages_first:
  assumes run: "ieee_pages net q 1 (JInt 0) [] s = Done recs s'"
    and first: "ieee_call_api net q 1 s = Done r s1"
    and tot: "py_get r ''total_records'' (JInt 0) = Inr (JInt T)"
  shows "requested (events s') = requested (events s)
           @ map (\<lambda>k. ieee_url s q (1 + 25 * k)) [0..<max 1 (nat ((T + 24) div 25))]
       \<and> T \<le> int (1 + 25 * (max 1 (nat ((T + 24) div 25)) - 1)) + 24
       \<and> (\<forall>k. Suc k < max 1 (nat ((T + 24) div 25)) \<longrightarrow> int (1 + 25 * k) + 24 < T)"
proof -
  from run first obtain t rs stop where page: "ieee_page r 1 (JInt 0) [] = Inr (t, rs, stop)"
    by (subst (asm) ieee_pages.simps) (auto split: sum.splits)
  from ieee_page_first [OF page tot] have t: "t = JInt T" and stop: "stop = (T \<le> int 1 + 24)"
    by auto
  have ev: "requested (events s1) = requested (events s) @ [ieee_url s q 1]"
    using ieee_call_api_Done [OF first] by (simp add: requested_append)
  have key: "ieee_url s1 q = ieee_url s q"
    using ieee_call_api_key [OF first] by (auto simp: ieee_url_def fun_eq_iff)
  have "requested (events s') = requested (events s)
           @ map (\<lambda>k. ieee_url s q (1 + 25 * k)) [0..<max 1 (nat ((T + 24) div 25))]"
  proof (cases stop)
    case True
    then have "s' = s1" using run first page by (subst (asm) ieee_pages.simps) simp
    moreover have "max 1 (nat ((T + 24) div 25)) = 1"
      using pages_count_stop [of T 1] True stop by simp
    ultimately show ?thesis using ev by simp
  next
    case False
    then have rec: "ieee_pages net q (1 + 25) (JInt T) rs s1 = Done recs s'"
      using run first page t by (subst (asm) ieee_pages.simps) simp
    have nz: "T \<noteq> 0" using False stop by auto
    have "requested (events s') = requested (events s1)
       @ map (\<lambda>k. ieee_url s1 q (1 + 25 + 25 * k)) [0..<max 1 (nat ((T - int (1 + 25) + 25) div 25))]"
      using ieee_pages_requests [OF rec nz] by simp
    moreover have "max 1 (nat ((T + 24) div 25))
       = Suc (max 1 (nat ((T - int (1 + 25) + 25) div 25)))"
      using pages_count_step [of T 1] False stop by simp
    ultimately show ?thesis
      using ev key by (simp add: upt_rec [of 0] map_Suc_upt [symmetric] del: upt_Suc)
  qed
  then show ?thesis using pages_bound [of T] by blast
qed


text \<open>A backend whose every answer is a page that the loop can read.\<close>

lemma ieee_call_api_ok:
  assumes "net (events s @ [Sleep 1]) (ieee_url s q st) = Response status (Json r)"
    and "200 \<le> status" and "status < 300"
  shows "\<exists>s1. ieee_call_api net q st s = Done r s1"
  using assms by (simp add: ieee_call_api_def http_get_def sleep_def Let_def ieee_url_def)

lemma ieee_page_ok:
  assumes "py_get r ''articles'' (JList []) = Inr (JList arts)" and "mapE ieee_record arts = Inr new"
    and "T \<noteq> 0"
  shows "ieee_page r st (JInt T) recs = Inr (JInt T, recs @ new, T \<le> int st + 24)"
  using assms by (simp add: ieee_page_def)

lemma ieee_page_ok_first:
  assumes "py_get r ''articles'' (JList []) = Inr (JList arts)" and "mapE ieee_record arts = Inr new"
    and "py_get r ''total_records'' (JInt 0) = Inr (JInt T)"
  shows "ieee_page r st (JInt 0) recs = Inr (JInt T, recs @ new, T \<le> int st + 24)"
  using assms by (simp add: ieee_page_def)

lemma ieee_pages_return:
  assumes ok: "\<forall>h u. \<exists>status r arts new. net h u = Response status (Json r)
          \<and> 200 \<le> status \<and> status < 300
          \<and> py_get r ''articles'' (JList []) = Inr (JList arts) \<and> mapE ieee_record arts = Inr new"
    and nz: "T \<noteq> 0"
  shows "\<exists>recs' s'. ieee_pages net q st (JInt T) recs s = Done recs' s'"
proof (induction "nat (T + 25 - int st)" arbitrary: st recs s rule: less_induct)
  case less
  from ok obtain status r arts new where
    n: "net (events s @ [Sleep 1]) (ieee_url s q st) = Response status (Json r)"
    and st: "200 \<le> status" "status < 300"
    and a: "py_get r ''articles'' (JList []) = Inr (JList arts)" "mapE ieee_record arts = Inr new"
    by blast
  from ieee_call_api_ok [where net = net and s = s, OF n st]
  obtain s1 where call: "ieee_call_api net q st s = Done r s1"
    by blast
  note page = ieee_page_ok [OF a nz, of st recs]
  show ?case
  proof (cases "T \<le> int st + 24")
    case True
    then have "ieee_pages net q st (JInt T) recs s = Done (recs @ new) s1"
      by (subst ieee_pages.simps) (simp add: call page)
    then show ?thesis by blast
  next
    case False
    then have "nat (T + 25 - int (st + 25)) < nat (T + 25 - int st)" by simp
    from less [OF this] obtain recs' s' where
      "ieee_pages net q (st + 25) (JInt T) (recs @ new) s1 = Done recs' s'" by blast
    then have "ieee_pages net q st (JInt T) recs s = Done recs' s'"
      using False by (subst ieee_pages.simps) (simp add: call page)
    then show ?thesis by blast
  qed
qed

lemma ieee_pages_return_first:
  assumes ok: "\<forall>h u. \<exists>status r arts new. net h u = Response status (Json r)
          \<and> 200 \<le> status \<and> status < 300
          \<and> py_get r ''articles'' (JList []) = Inr (JList arts) \<and> mapE ieee_record arts = Inr new"
    and first: "net (events s @ [Sleep 1]) (ieee_url s q st) = Response status1 (Json r1)"
    and tot: "py_get r1 ''total_records'' (JInt 0) = Inr (JInt T)"
  shows "\<exists>recs' s' s1. ieee_pages net q st (JInt 0) [] s = Done recs' s'
           \<and> ieee_call_api net q st s = Done r1 s1"
proof -
  from ok obtain status r arts new where
    n: "net (events s @ [Sleep 1]) (ieee_url s q st) = Response status (Json r)"
    and st: "200 \<le> status" "status < 300"
    and a: "py_get r ''articles'' (JList []) = Inr (JList arts)" "mapE ieee_record arts = Inr new"
    by blast
  from n first have r: "r = r1" by simp
  from ieee_call_api_ok [where net = net and s = s, OF n st]
  obtain s1 where call: "ieee_call_api net q st s = Done r1 s1"
    unfolding r by blast
  note page = ieee_page_ok_first [OF a [unfolded r] tot, of st "[]"]
  show ?thesis
  proof (cases "T \<le> int st + 24")
    case True
    then have "ieee_pages net q st (JInt 0) [] s = Done ([] @ new) s1"
      by (subst ieee_pages.simps) (simp add: call page)
    then show ?thesis using call by blast
  next
    case False
    then have nz: "T \<noteq> 0" by auto
    from ieee_pages_return [OF ok nz] obtain recs' s' where
      "ieee_pages net q (st + 25) (JInt T) ([] @ new) s1 = Done recs' s'" by blast
    then have "ieee_pages net q st (JInt 0) [] s = Done recs' s'"
      using False by (subst ieee_pages.simps) (simp add: call page)
    then show ?thesis using call by blast
  qed
qed

text \<open>
  C6. One cell of the IEEE connector, against a backend whose every answer is a page the
  loop can read (a status in 200..299, a JSON object whose \<open>articles\<close> are a list of
  well-formed articles) and whose first page reports \<open>total_records = T\<close>: the page loop
  returns, and the requests it has made are those for the start offsets 1, 26, 51, ...
  (first offset 1, step 25), one after the other, \<open>max 1 \<lceil>T / 25\<rceil>\<close> of them. The last
  offset is the first one with \<open>offset + 24 \<ge> T\<close>: the loop stops exactly there. For
  \<open>T = 30\<close> that is two requests, for the offsets 1 and 26.
\<close>

theorem ieee_pagination:
  assumes ok: "\<forall>h u. \<exists>status r arts new. net h u = Response status (Json r)
          \<and> 200 \<le> status \<and> status < 300
          \<and> py_get r ''articles'' (JList []) = Inr (JList arts) \<and> mapE ieee_record arts = Inr new"
    and first: "net (events s @ [Sleep 1]) (ieee_url s q 1) = Response status1 (Json r1)"
    and tot: "py_get r1 ''total_records'' (JInt 0) = Inr (JInt T)"
  shows "\<exists>recs s'. ieee_pages net q 1 (JInt 0) [] s = Done recs s'
       \<and> requested (events s') = requested (events s)
           @ map (\<lambda>k. ieee_url s q (1 + 25 * k)) [0..<max 1 (nat ((T + 24) div 25))]
       \<and> T \<le> int (1 + 25 * (max 1 (nat ((T + 24) div 25)) - 1)) + 24
       \<and> (\<forall>k. Suc k < max 1 (nat ((T + 24) div 25)) \<longrightarrow> int (1 + 25 * k) + 24 < T)"
proof -
  from ieee_pages_return_first [OF ok first tot] obtain recs s' s1 where
    run: "ieee_pages net q 1 (JInt 0) [] s = Done recs s'"
    and call: "ieee_call_api net q 1 s = Done r1 s1"
    by blast
  from ieee_pages_first [OF run call tot] run show ?thesis by blast
qed

lemma py_str_26: "py_str 26 = ''26''"
  by (simp add: py_str_def digits.simps digit_char_def)

text \<open>A backend that reports 30 records on every page: two requests.\<close>

theorem ieee_pagination_witness:
  "map_option (\<lambda>s'. requested (events s'))
     (outcome_state (ieee_pages answers_thirty ''q'' 1 (JInt 0) [] (new_instance ''key'' [] None)))
   = Some [ieee_url (new_instance ''key'' [] None) ''q'' 1,
           ieee_url (new_instance ''key'' [] None) ''q'' 26]"
proof -
  define s0 where "s0 = new_instance ''key'' [] None"
  have ok: "\<forall>h u. \<exists>status r arts new. answers_thirty h u = Response status (Json r)
          \<and> 200 \<le> status \<and> status < 300
          \<and> py_get r ''articles'' (JList []) = Inr (JList arts) \<and> mapE ieee_record arts = Inr new"
    by (simp add: answers_thirty_def)
  have first: "answers_thirty (events s0 @ [Sleep 1]) (ieee_url s0 ''q'' 1)
      = Response 200 (Json (JDict [(''total_records'', JInt 30), (''articles'', JList [])]))"
    by (simp add: answers_thirty_def)
  have tot: "py_get (JDict [(''total_records'', JInt 30), (''articles'', JList [])])
      ''total_records'' (JInt 0) = Inr (JInt 30)"
    by simp
  from ieee_pagination [OF ok first tot] obtain recs s' where
    run: "ieee_pages answers_thirty ''q'' 1 (JInt 0) [] s0 = Done recs s'"
    and req: "requested (events s') = requested (events s0)
           @ map (\<lambda>k. ieee_url s0 ''q'' (1 + 25 * k)) [0..<max 1 (nat ((30 + 24) div 25))]"
    by blast
  have "max 1 (nat (((30::int) + 24) div 25)) = 2" by simp
  moreover have "events s0 = []" by (simp add: s0_def new_instance_def)
  ultimately have "requested (events s') = [ieee_url s0 ''q'' 1, ieee_url s0 ''q'' 26]"
    using req by (simp add: numeral_2_eq_2)
  then show ?thesis using run by (simp add: s0_def)
qed

section \<open>The records the parsers build\<close>

lemma map_of_dict_set:
  "map_of (dict_set d k v) k' = (if k' = k then Some v else map_of d k')"
  by (induction d) auto

lemma map_of_article_id:
  "k \<noteq> ''doi'' \<Longrightarrow> k \<noteq> ''isbn'' \<Longrightarrow> map_of (pubmed_article_id x d) k = map_of d k"
  by (simp add: pubmed_article_id_def map_of_dict_set)

lemma map_of_article_ids:
  "k \<noteq> ''doi'' \<Longrightarrow> k \<noteq> ''isbn'' \<Longrightarrow> map_of (fold pubmed_article_id xs d) k = map_of d k"
  by (induction xs arbitrary: d) (simp_all add: map_of_article_id)




lemma split_dash_first_Inr: "split_dash_first d = Inr y \<Longrightarrow> \<exists>s. d = JStr s \<and> y = JStr (hd (split s ''-''))"
  by (cases d) auto

lemma scopus_record_fields:
  assumes "scopus_record (JDict kvs) = Inr r"
  shows "(\<exists>a. py_getitem r ''authors'' = Inr (JStr a))
     \<and> py_getitem r ''title'' = py_get (JDict kvs) ''dc:title'' JNull
     \<and> py_getitem r ''abstract'' = py_get (JDict kvs) ''dc:description'' JNull
     \<and> py_getitem r ''doi'' = py_get (JDict kvs) ''prism:doi'' JNull
     \<and> py_getitem r ''isbn'' = py_get (JDict kvs) ''prism:isbn'' (JStr ''null'')
     \<and> py_getitem r ''issn'' = py_get (JDict kvs) ''prism:issn'' (JStr ''null'')
     \<and> (\<exists>d. py_get (JDict kvs) ''prism:coverDate'' (JStr []) = Inr (JStr d)
            \<and> py_getitem r ''publication year'' = Inr (JStr (hd (split d ''-''))))"
  using assms by (auto simp: scopus_record_def bindE_eq_Inr dest!: split_dash_first_Inr)




lemma pubmed_title:
  assumes "pubmed_article_data a = Inr (Some r)"
  shows "\<exists>mc. xml_find [''MedlineCitation''] a = Some mc
     \<and> py_getitem r ''title''
         = Inr (case xml_find [''Article'', ''ArticleTitle''] mc of
                  None \<Rightarrow> JStr ''null''
                | Some article_title \<Rightarrow> text_of article_title)"
  using assms
  by (auto simp: pubmed_article_data_def Let_def bindE_eq_Inr map_of_dict_set map_of_article_ids
      split: option.splits)





section \<open>Which records the parsers keep\<close>

lemma mapE_length: "mapE f xs = Inr ys \<Longrightarrow> length ys = length xs"
  by (induction xs arbitrary: ys) (auto simp: bindE_eq_Inr)

lemma ieee_keeps_all:
  assumes "ieee_page r st tot recs0 = Inr (t, recs, stop)"
  shows "\<exists>arts. bindE (py_get r ''articles'' (JList [])) py_iter = Inr arts
     \<and> length recs = length recs0 + length arts"
  using assms by (auto simp: ieee_page_def bindE_eq_Inr dest: mapE_length)

lemma springer_keeps_all:
  assumes "springer_extract_data data = Inr recs"
  shows "\<exists>rs. bindE (py_get data ''records'' (JList [])) py_iter = Inr rs
     \<and> length recs = length rs"
  using assms by (auto simp: springer_extract_data_def bindE_eq_Inr dest: mapE_length)

lemma scopus_entries_filter:
  "scopus_entries entries results = Inr out \<Longrightarrow>
   \<exists>recs. mapE scopus_record entries = Inr recs \<and> out = results @ filter any_values recs"
proof (induction entries arbitrary: results out)
  case Nil
  then show ?case by simp
next
  case (Cons e es)
  from Cons.prems obtain d where d: "scopus_record e = Inr d"
    and rest: "scopus_entries es (if any_values d then results @ [d] else results) = Inr out"
    by (auto simp: bindE_eq_Inr)
  from Cons.IH [OF rest] obtain recs where
    "mapE scopus_record es = Inr recs"
    "out = (if any_values d then results @ [d] else results) @ filter any_values recs"
    by blast
  then show ?case using d by simp
qed

lemma pubmed_articles_filter:
  "pubmed_articles arts articles = Inr out \<Longrightarrow>
   \<exists>rs. mapE pubmed_article_data arts = Inr rs
     \<and> out = articles @ filter any_values (map the (filter (\<lambda>r. r \<noteq> None) rs))"
proof (induction arts arbitrary: articles out)
  case Nil
  then show ?case by simp
next
  case (Cons a as)
  from Cons.prems obtain r where r: "pubmed_article_data a = Inr r"
    and rest: "(case r of None \<Rightarrow> pubmed_articles as articles
         | Some d \<Rightarrow> pubmed_articles as (if any_values d then articles @ [d] else articles)) = Inr out"
    by (auto simp: bindE_eq_Inr)
  show ?case
  proof (cases r)
    case None
    with rest have "pubmed_articles as articles = Inr out" by simp
    from Cons.IH [OF this] show ?thesis using r None by auto
  next
    case (Some d)
    with rest have "pubmed_articles as (if any_values d then articles @ [d] else articles) = Inr out"
      by simp
    from Cons.IH [OF this] show ?thesis using r Some by auto
  qed
qed

lemma any_values_getitem: "py_getitem r k = Inr v \<Longrightarrow> truthy v \<Longrightarrow> any_values r"
  by (cases r) (auto simp: list_ex_iff split: option.splits dest!: map_of_SomeD intro!: bexI)

lemma scopus_keeps_without_isbn:
  assumes "scopus_record (JDict kvs) = Inr r"
    and "map_of kvs ''prism:isbn'' = None \<or> map_of kvs ''prism:issn'' = None"
  shows "any_values r"
proof -
  from scopus_record_fields [OF assms(1)]
  have "py_getitem r ''isbn'' = py_get (JDict kvs) ''prism:isbn'' (JStr ''null'')"
    and "py_getitem r ''issn'' = py_get (JDict kvs) ''prism:issn'' (JStr ''null'')"
    by blast+
  with assms(2) have "py_getitem r ''isbn'' = Inr (JStr ''null'') \<or> py_getitem r ''issn'' = Inr (JStr ''null'')"
    by auto
  then show ?thesis using any_values_getitem [of r _ "JStr ''null''"] by auto
qed

lemma pubmed_keeps_without_title:
  assumes "pubmed_article_data a = Inr (Some r)"
    and "xml_find [''MedlineCitation''] a = Some mc"
    and "xml_find [''Article'', ''ArticleTitle''] mc = None"
  shows "any_values r"
proof -
  from pubmed_title [OF assms(1)] assms(2,3)
  have "py_getitem r ''title'' = Inr (JStr ''null'')" by auto
  then show ?thesis using any_values_getitem [of r _ "JStr ''null''"] by auto
qed

text \<open>
  C7 (as amended). The IEEE and Springer parsers keep every record: a page yields as many
  records as it has articles. The Scopus and the PubMed parser both filter: of the dicts
  built from the entries (from the articles that have a \<open>MedlineCitation\<close>), exactly those
  with at least one truthy value are kept, in order. A Scopus entry that omits
  \<open>prism:isbn\<close> or \<open>prism:issn\<close> gets the truthy default \<open>"null"\<close> there and is therefore
  kept even when it has no other field; a PubMed article without \<open>ArticleTitle\<close> gets the
  title \<open>"null"\<close> and is kept as well.
\<close>

theorem empty_records:
  "(ieee_page response st tot recs0 = Inr (t, recs, stop) \<longrightarrow>
      (\<exists>arts. bindE (py_get response ''articles'' (JList [])) py_iter = Inr arts
         \<and> length recs = length recs0 + length arts))
   \<and> (springer_extract_data data = Inr recs \<longrightarrow>
      (\<exists>rs. bindE (py_get data ''records'' (JList [])) py_iter = Inr rs
         \<and> length recs = length rs))
   \<and> (scopus_entries entries [] = Inr out \<longrightarrow>
      (\<exists>ds. mapE scopus_record entries = Inr ds \<and> out = filter any_values ds))
   \<and> (pubmed_articles articles [] = Inr out \<longrightarrow>
      (\<exists>rs. mapE pubmed_article_data articles = Inr rs
         \<and> out = filter any_values (map the (filter (\<lambda>r. r \<noteq> None) rs))))
   \<and> (scopus_record (JDict kvs) = Inr r
        \<and> (map_of kvs ''prism:isbn'' = None \<or> map_of kvs ''prism:issn'' = None) \<longrightarrow>
      any_values r)
   \<and> (pubmed_article_data a = Inr (Some r) \<and> xml_find [''MedlineCitation''] a = Some mc
        \<and> xml_find [''Article'', ''ArticleTitle''] mc = None \<longrightarrow>
      any_values r)"
proof (intro conjI impI)
  assume "scopus_entries entries [] = Inr out"
  from scopus_entries_filter [OF this]
  show "\<exists>ds. mapE scopus_record entries = Inr ds \<and> out = filter any_values ds" by simp
next
  assume "pubmed_articles articles [] = Inr out"
  from pubmed_articles_filter [OF this]
  show "\<exists>rs. mapE pubmed_article_data articles = Inr rs
         \<and> out = filter any_values (map the (filter (\<lambda>r. r \<noteq> None) rs))" by simp
qed (use ieee_keeps_all [of response st tot recs0 t recs stop] springer_keeps_all [of data recs]
      scopus_keeps_without_isbn [of kvs r] pubmed_keeps_without_title [of a r mc] in \<open>blast+\<close>)

text \<open>Two Springer records without any field are both kept; so is a Scopus entry without any.\<close>

theorem empty_records_witness:
  "bindE (springer_extract_data springer_empty_records) (\<lambda>recs. Inr (length recs)) = Inr 2
   \<and> bindE (scopus_record (JDict [])) (\<lambda>r. Inr (any_values r)) = Inr True"
proof -
  obtain recs where s: "springer_extract_data springer_empty_records = Inr recs"
    by (simp add: springer_extract_data_def springer_empty_records_def springer_record_def py_join_def)
  obtain r where r: "scopus_record (JDict []) = Inr r"
    by (simp add: scopus_record_def py_join_def)
  from empty_records [of _ _ _ _ _ recs _ springer_empty_records _ _ _ "[]" r] s
  obtain rs where "bindE (py_get springer_empty_records ''records'' (JList [])) py_iter = Inr rs"
    and "length recs = length rs" by blast
  then have "length recs = 2" by (auto simp: springer_empty_records_def)
  moreover from empty_records [of _ _ _ _ _ recs _ springer_empty_records _ _ _ "[]" r] r
  have "any_values r" by simp
  ultimately show ?thesis using s r by simp
qed

text \<open>
  C7 as stated fails in both directions. The PubMed parser filters too: an article whose
  only field is an empty title is dropped. And the Scopus parser keeps an entry all of
  whose fields are absent, because its \<open>isbn\<close> and \<open>issn\<close> default to \<open>"null"\<close>.
\<close>

theorem pubmed_filters_counterexample:
  "extract_pubmed_data pubmed_empty_title = Inr []
   \<and> scopus_extract_titles_and_abstracts scopus_empty_entry
     = Inr [JDict [(''title'', JNull), (''abstract'', JNull), (''authors'', JStr []),
                   (''doi'', JNull), (''isbn'', JStr ''null''), (''issn'', JStr ''null''),
                   (''publication year'', JStr [])]]"
  by (simp add: scopus_extract_titles_and_abstracts_def scopus_empty_entry_def scopus_record_def
      py_join_def split_def extract_pubmed_data_def pubmed_empty_title_def pubmed_article_data_def
      xml_find_def text_of_def)

section \<open>Resuming a Springer search\<close>

lemma resumed_springer_run_cells:
  "map_option (\<lambda>s. (stored_cells (events s), keyword_index s, name_index s))
     (outcome_state resumed_springer_run)
   = Some ([(''A'', None, ''k1''), (''B'', None, ''k1'')], 1, 0)"
  by code_simp

text \<open>
  C1 fails on the code. A Springer search over the single-name terms \<open>A\<close>, \<open>B\<close> and the
  keywords \<open>k0\<close>, \<open>k1\<close> is resumed from the checkpoint written after the cell (\<open>A\<close>,
  \<open>k0\<close>), which holds \<open>item_index = 0\<close> and \<open>keyword_index = 1\<close>. The run stores the cells
  (\<open>A\<close>, \<open>k1\<close>) and (\<open>B\<close>, \<open>k1\<close>) and ends with \<open>keyword_index\<close> still 1: the cell (\<open>B\<close>,
  \<open>k0\<close>) is skipped, because the single-name branch never sets \<open>keyword_index\<close> back to 0.
\<close>

theorem springer_resume_skips_cell:
  "map_option (stored_cells \<circ> events) (outcome_state resumed_springer_run)
     = Some [(''A'', None, ''k1''), (''B'', None, ''k1'')]
   \<and> map_option keyword_index (outcome_state resumed_springer_run) = Some 1
   \<and> map_option name_index (outcome_state resumed_springer_run) = Some 0"
  using resumed_springer_run_cells
  by (cases "outcome_state resumed_springer_run") auto

end
